theory Spec2Isabelle
  imports Main "HOL-Library.Word" "HOL-Library.AList"
begin

unbundle bit_operations_syntax

text \<open>
  Two browser scripts of an admin interface. The tenant script (\<open>part_000\<close>) fills
  the currency symbol field from the selected currency. The admin script
  (\<open>custom-admin.js\<close>) decorates the pages and defines \<open>initAutoSave\<close>, which keeps a
  draft of every form in \<open>localStorage\<close>. The model follows the scripts function by
  function, with the state they read and write made explicit; the built-ins they call
  (\<open>trim\<close>, property reads, \<open>JSON.parse\<close>, \<open>JSON.stringify\<close>, \<open>localStorage\<close>,
  \<open>querySelector\<close>) are modelled from their standards.
\<close>

section \<open>JavaScript strings\<close>

text \<open>
  A JavaScript string is a sequence of UTF-16 code units. \<open>utf16\<close> writes an ASCII
  literal; code units beyond ASCII are written as numerals (U+20A6 is the naira sign).
\<close>

type_synonym jstring = "16 word list"

definition utf16 :: "string \<Rightarrow> jstring" where
  "utf16 s = map of_char s"

text \<open>
  \<open>String.prototype.trim\<close> removes WhiteSpace and LineTerminator code points
  (ECMA-262, 22.1.3.32) from both ends.
\<close>

definition is_js_space :: "16 word \<Rightarrow> bool" where
  "is_js_space c \<longleftrightarrow>
     c = 0x9 \<or> c = 0xA \<or> c = 0xB \<or> c = 0xC \<or> c = 0xD \<or> c = 0x20 \<or> c = 0xA0 \<or>
     c = 0x1680 \<or> (0x2000 \<le> c \<and> c \<le> 0x200A) \<or> c = 0x2028 \<or> c = 0x2029 \<or>
     c = 0x202F \<or> c = 0x205F \<or> c = 0x3000 \<or> c = 0xFEFF"

definition trim :: "jstring \<Rightarrow> jstring" where
  "trim s = rev (dropWhile is_js_space (rev (dropWhile is_js_space s)))"

section \<open>Tenant admin: currency symbol auto-population\<close>

text \<open>
  The value of a property read \<open>obj[key]\<close>. The object literal \<open>CURRENCY_SYMBOLS\<close>
  inherits from \<open>Object.prototype\<close>, so a read finds the literal's own entries
  first and the inherited built-ins after them.
\<close>

datatype js_value = Undefined | Str jstring | NativeFunction jstring | ObjectPrototype

fun truthy :: "js_value \<Rightarrow> bool" where
  "truthy Undefined = False"
| "truthy (Str s) = (s \<noteq> [])"
| "truthy (NativeFunction n) = True"
| "truthy ObjectPrototype = True"

text \<open>
  The text of a built-in function is implementation-defined up to white space
  (ECMA-262, 20.2.3.5); the rendering of V8 and JavaScriptCore is used. No theorem below
  depends on more than its being non-empty.
\<close>

fun ToString :: "js_value \<Rightarrow> jstring" where
  "ToString Undefined = utf16 ''undefined''"
| "ToString (Str s) = s"
| "ToString (NativeFunction n) = utf16 ''function '' @ n @ utf16 ''() { [native code] }''"
| "ToString ObjectPrototype = utf16 ''[object Object]''"

definition CURRENCY_SYMBOLS :: "(jstring \<times> jstring) list" where
  "CURRENCY_SYMBOLS =
    [(utf16 ''USD'', utf16 ''$''),
     (utf16 ''CAD'', utf16 ''C$''),
     (utf16 ''GBP'', [0xA3]),
     (utf16 ''EUR'', [0x20AC]),
     (utf16 ''AUD'', utf16 ''A$''),
     (utf16 ''NGN'', [0x20A6]),
     (utf16 ''ZAR'', utf16 ''R''),
     (utf16 ''KES'', utf16 ''KSh''),
     (utf16 ''GHS'', utf16 ''GH'' @ [0x20B5]),
     (utf16 ''UGX'', utf16 ''USh''),
     (utf16 ''TZS'', utf16 ''TSh''),
     (utf16 ''EGP'', utf16 ''E'' @ [0xA3]),
     (utf16 ''MAD'', utf16 ''DH''),
     (utf16 ''JPY'', [0xA5]),
     (utf16 ''CNY'', [0xA5]),
     (utf16 ''INR'', [0x20B9]),
     (utf16 ''CHF'', utf16 ''CHF'')]"

text \<open>
  The properties every ordinary object inherits from \<open>Object.prototype\<close> in a
  browser: the property name and the name of the function it holds. \<open>__proto__\<close> is
  an accessor whose getter returns \<open>Object.prototype\<close> itself.
\<close>

definition Object_prototype :: "(jstring \<times> js_value) list" where
  "Object_prototype =
    [(utf16 ''constructor'', NativeFunction (utf16 ''Object'')),
     (utf16 ''hasOwnProperty'', NativeFunction (utf16 ''hasOwnProperty'')),
     (utf16 ''isPrototypeOf'', NativeFunction (utf16 ''isPrototypeOf'')),
     (utf16 ''propertyIsEnumerable'', NativeFunction (utf16 ''propertyIsEnumerable'')),
     (utf16 ''toLocaleString'', NativeFunction (utf16 ''toLocaleString'')),
     (utf16 ''toString'', NativeFunction (utf16 ''toString'')),
     (utf16 ''valueOf'', NativeFunction (utf16 ''valueOf'')),
     (utf16 ''__defineGetter__'', NativeFunction (utf16 ''__defineGetter__'')),
     (utf16 ''__defineSetter__'', NativeFunction (utf16 ''__defineSetter__'')),
     (utf16 ''__lookupGetter__'', NativeFunction (utf16 ''__lookupGetter__'')),
     (utf16 ''__lookupSetter__'', NativeFunction (utf16 ''__lookupSetter__'')),
     (utf16 ''__proto__'', ObjectPrototype)]"

definition get_property :: "(jstring \<times> jstring) list \<Rightarrow> jstring \<Rightarrow> js_value" where
  "get_property obj k =
     (case map_of obj k of
        Some s \<Rightarrow> Str s
      | None \<Rightarrow> (case map_of Object_prototype k of Some v \<Rightarrow> v | None \<Rightarrow> Undefined))"

text \<open>
  The element \<open>#id_currency_symbol\<close>: its value, its inline background colour, and the
  number of pending one-second timers that will clear the colour. \<open>updateCurrencySymbol\<close>
  is lines 41-58 of the tenant script, with the currency field's value as its argument.
\<close>

record symbol_field =
  symbol_value :: jstring
  backgroundColor :: jstring
  pending_timeouts :: nat

definition updateCurrencySymbol :: "jstring \<Rightarrow> symbol_field \<Rightarrow> symbol_field" where
  "updateCurrencySymbol selectedCurrency currencySymbolField =
     (if selectedCurrency \<noteq> [] \<and> truthy (get_property CURRENCY_SYMBOLS selectedCurrency) then
        (let currentSymbol = trim (symbol_value currencySymbolField) in
         if currentSymbol = [] \<or> currentSymbol = utf16 ''$'' \<or> currentSymbol = [0x20A6] then
           currencySymbolField
             \<lparr>symbol_value := ToString (get_property CURRENCY_SYMBOLS selectedCurrency),
              backgroundColor := utf16 ''#d1fae5'',
              pending_timeouts := Suc (pending_timeouts currencySymbolField)\<rparr>
         else currencySymbolField)
      else currencySymbolField)"

definition timeout_fires :: "symbol_field \<Rightarrow> symbol_field" where
  "timeout_fires f = f\<lparr>backgroundColor := [], pending_timeouts := pending_timeouts f - 1\<rparr>"

text \<open>
  The tenant page as the script sees it: the value of \<open>#id_currency\<close> and the element
  \<open>#id_currency_symbol\<close> (each \<open>None\<close> when the element is missing), the number of
  \<open>updateCurrencySymbol\<close> listeners on the currency field, and the number of
  \<open>.help\<close> elements inside the symbol field's wrapper (\<open>None\<close> when it has no
  \<open>.form-row\<close> or \<open>.field-currency_symbol\<close> ancestor). The handler is lines 31-85:
  it returns at once when a field is missing, registers the change listener, runs the
  load-time trigger (lines 63-69) and adds the help text once.
\<close>

record tenant_page =
  currencyField :: "jstring option"
  currencySymbolField :: "symbol_field option"
  currency_listeners :: nat
  wrapper_help :: "nat option"

definition tenant_DOMContentLoaded :: "tenant_page \<Rightarrow> tenant_page" where
  "tenant_DOMContentLoaded p =
     (case (currencyField p, currencySymbolField p) of
        (Some currency, Some field) \<Rightarrow>
          p\<lparr>currency_listeners := Suc (currency_listeners p),
            currencySymbolField :=
              Some (if currency \<noteq> [] then
                      (let currentSymbol = trim (symbol_value field) in
                       if currentSymbol = [] \<or> currentSymbol = utf16 ''$''
                       then updateCurrencySymbol currency field else field)
                    else field),
            wrapper_help :=
              (case wrapper_help p of
                 None \<Rightarrow> None
               | Some n \<Rightarrow> if n = 0 then Some 1 else Some n)\<rparr>
      | _ \<Rightarrow> p)"

text \<open>
  A change event on the currency field after the user selected \<open>selected\<close>: every
  registered listener runs \<open>updateCurrencySymbol\<close> once.
\<close>

definition currency_change :: "jstring \<Rightarrow> tenant_page \<Rightarrow> tenant_page" where
  "currency_change selected p =
     (case (currencyField p, currencySymbolField p) of
        (Some currency, Some field) \<Rightarrow>
          p\<lparr>currencyField := Some selected,
            currencySymbolField :=
              Some (((updateCurrencySymbol selected) ^^ currency_listeners p) field)\<rparr>
      | _ \<Rightarrow> p)"

section \<open>Ordinary objects\<close>

text \<open>
  An ordinary object is kept as the list of its own properties in the order
  \<open>OrdinaryOwnPropertyKeys\<close> reports them (ECMA-262, 10.1.11.1): array indices in
  ascending numeric order first, then the other string keys in creation order. An array
  index is the canonical decimal string of an integer below \<open>2^32 - 1\<close>. This is the
  order \<open>Object.keys\<close> and \<open>JSON.stringify\<close> enumerate.
\<close>

definition is_digit :: "16 word \<Rightarrow> bool" where
  "is_digit c \<longleftrightarrow> 0x30 \<le> c \<and> c \<le> 0x39"

definition decimal_value :: "jstring \<Rightarrow> int" where
  "decimal_value s = foldl (\<lambda>n c. 10 * n + (uint c - 0x30)) 0 s"

definition array_index :: "jstring \<Rightarrow> int option" where
  "array_index s =
     (if s \<noteq> [] \<and> list_all is_digit s \<and> (hd s \<noteq> 0x30 \<or> length s = 1)
         \<and> decimal_value s < 4294967295
      then Some (decimal_value s) else None)"

text \<open>
  \<open>CreateDataProperty\<close> (also what an assignment \<open>obj[k] = v\<close> does on a plain object
  for every key but \<open>__proto__\<close>): an existing key keeps its place and takes the new
  value, a new array index is inserted among the indices, any other new key goes last.
\<close>

fun insert_index :: "int \<Rightarrow> jstring \<times> 'v \<Rightarrow> (jstring \<times> 'v) list \<Rightarrow> (jstring \<times> 'v) list" where
  "insert_index i p [] = [p]"
| "insert_index i p (q # obj) =
     (case array_index (fst q) of
        Some j \<Rightarrow> if j < i then q # insert_index i p obj else p # q # obj
      | None \<Rightarrow> p # q # obj)"

definition CreateDataProperty :: "(jstring \<times> 'v) list \<Rightarrow> jstring \<Rightarrow> 'v \<Rightarrow> (jstring \<times> 'v) list" where
  "CreateDataProperty obj k v =
     (if k \<in> fst ` set obj then AList.update k v obj
      else case array_index k of
             Some i \<Rightarrow> insert_index i (k, v) obj
           | None \<Rightarrow> obj @ [(k, v)])"

text \<open>The canonical decimal string of a non-negative integer.\<close>

function decimal :: "int \<Rightarrow> jstring" where
  "decimal n =
     (if n < 10 then [of_int (0x30 + n)]
      else decimal (n div 10) @ [of_int (0x30 + n mod 10)])"
  by pat_completeness auto

termination
  by (relation "measure nat") auto

declare decimal.simps [simp del]

text \<open>
  The shape every object built by \<open>CreateDataProperty\<close> has: no key twice, array
  indices ascending before all other keys.
\<close>

definition key_before :: "jstring \<Rightarrow> jstring \<Rightarrow> bool" where
  "key_before k1 k2 =
     (case array_index k2 of
        None \<Rightarrow> True
      | Some j \<Rightarrow> (case array_index k1 of None \<Rightarrow> False | Some i \<Rightarrow> i < j))"

definition own_key_order :: "jstring list \<Rightarrow> bool" where
  "own_key_order ks = sorted_wrt key_before ks"

definition ordinary_object :: "(jstring \<times> 'v) list \<Rightarrow> bool" where
  "ordinary_object obj \<longleftrightarrow> distinct (map fst obj) \<and> own_key_order (map fst obj)"

section \<open>JSON.parse\<close>

text \<open>
  \<open>JSON.parse\<close> (ECMA-262, 25.5.1; the grammar of ECMA-404) on a string of code units.
  A number is kept as its lexeme: its floating-point value is outside this model, and the
  admin script only ever stores strings. The text is first cut into tokens, then a
  pushdown recogniser builds the value; any failure of either is the one exception
  \<open>SyntaxError\<close>. An object's members are defined in source order with
  \<open>CreateDataProperty\<close>, so a repeated key keeps its first position and its last value.

  Code units are written as numerals: 0x22 is the double quote, 0x5C the backslash, 0x2F the
  slash, 0x7B and 0x7D the braces, 0x5B and 0x5D the brackets, 0x3A the colon, 0x2C the
  comma, 0x2D minus, 0x2B plus, 0x2E the full stop, 0x30 to 0x39 the digits, 0x45 and 0x65
  the letters E and e, 0x62, 0x66, 0x6E, 0x72, 0x74 and 0x75 the letters b, f, n, r, t, u.
\<close>

datatype json =
  JNull | JBool bool | JNumber jstring | JString jstring
  | JArray "json list" | JObject "(jstring \<times> json) list"

datatype token =
  LBrace | RBrace | LBracket | RBracket | Colon | Comma
  | TString jstring | TNumber jstring | TTrue | TFalse | TNull

definition is_json_ws :: "16 word \<Rightarrow> bool" where
  "is_json_ws c \<longleftrightarrow> c = 0x20 \<or> c = 0x9 \<or> c = 0xA \<or> c = 0xD"

text \<open>
  A string token, read after its opening quote: the decoded string and the rest of the
  input after the closing quote. Code units below U+0020 must be escaped.
\<close>

definition hex_value :: "16 word \<Rightarrow> 16 word option" where
  "hex_value c =
     (if 0x30 \<le> c \<and> c \<le> 0x39 then Some (c - 0x30)
      else if 0x41 \<le> c \<and> c \<le> 0x46 then Some (c - 0x41 + 10)
      else if 0x61 \<le> c \<and> c \<le> 0x66 then Some (c - 0x61 + 10)
      else None)"

definition hex4 :: "16 word \<Rightarrow> 16 word \<Rightarrow> 16 word \<Rightarrow> 16 word \<Rightarrow> 16 word option" where
  "hex4 a b c d =
     (case (hex_value a, hex_value b, hex_value c, hex_value d) of
        (Some w, Some x, Some y, Some z) \<Rightarrow> Some (push_bit 12 w OR push_bit 8 x OR push_bit 4 y OR z)
      | _ \<Rightarrow> None)"

definition unescape :: "16 word \<Rightarrow> 16 word option" where
  "unescape e =
     (if e = 0x22 then Some 0x22
      else if e = 0x5C then Some 0x5C
      else if e = 0x2F then Some 0x2F
      else if e = 0x62 then Some 0x8
      else if e = 0x66 then Some 0xC
      else if e = 0x6E then Some 0xA
      else if e = 0x72 then Some 0xD
      else if e = 0x74 then Some 0x9
      else None)"

fun lex_string :: "jstring \<Rightarrow> (jstring \<times> jstring) option" where
  "lex_string [] = None"
| "lex_string (c # cs) =
     (if c = 0x22 then Some ([], cs)
      else if c = 0x5C then
        (case cs of
           [] \<Rightarrow> None
         | e # cs' \<Rightarrow>
             if e = 0x75 then
               (case cs' of
                  h1 # h2 # h3 # h4 # cs'' \<Rightarrow>
                    (case hex4 h1 h2 h3 h4 of
                       None \<Rightarrow> None
                     | Some u \<Rightarrow> map_option (apfst ((#) u)) (lex_string cs''))
                | _ \<Rightarrow> None)
             else
               (case unescape e of
                  None \<Rightarrow> None
                | Some u \<Rightarrow> map_option (apfst ((#) u)) (lex_string cs')))
      else if c < 0x20 then None
      else map_option (apfst ((#) c)) (lex_string cs))"

text \<open>A number token: optional minus, integer part, optional fraction and exponent.\<close>

definition lex_int :: "jstring \<Rightarrow> (jstring \<times> jstring) option" where
  "lex_int cs =
     (case cs of
        [] \<Rightarrow> None
      | c # r \<Rightarrow>
          if c = 0x30 then Some ([c], r)
          else if is_digit c then Some (c # takeWhile is_digit r, dropWhile is_digit r)
          else None)"

definition lex_frac :: "jstring \<Rightarrow> (jstring \<times> jstring) option" where
  "lex_frac cs =
     (case cs of
        [] \<Rightarrow> Some ([], cs)
      | c # r \<Rightarrow>
          if c = 0x2E then
            (if takeWhile is_digit r = [] then None
             else Some (c # takeWhile is_digit r, dropWhile is_digit r))
          else Some ([], cs))"

definition lex_sign :: "jstring \<Rightarrow> jstring \<times> jstring" where
  "lex_sign cs =
     (case cs of
        [] \<Rightarrow> ([], cs)
      | s # r \<Rightarrow> if s = 0x2B \<or> s = 0x2D then ([s], r) else ([], cs))"

definition lex_exp :: "jstring \<Rightarrow> (jstring \<times> jstring) option" where
  "lex_exp cs =
     (case cs of
        [] \<Rightarrow> Some ([], cs)
      | c # r \<Rightarrow>
          if c = 0x65 \<or> c = 0x45 then
            (case lex_sign r of
               (sign, r') \<Rightarrow>
                 if takeWhile is_digit r' = [] then None
                 else Some (c # sign @ takeWhile is_digit r', dropWhile is_digit r'))
          else Some ([], cs))"

definition lex_number :: "jstring \<Rightarrow> (jstring \<times> jstring) option" where
  "lex_number cs =
     (case (case cs of [] \<Rightarrow> ([], cs) | c # r \<Rightarrow> if c = 0x2D then ([c], r) else ([], cs)) of
        (neg, r0) \<Rightarrow>
          (case lex_int r0 of
             None \<Rightarrow> None
           | Some (i, r1) \<Rightarrow>
               (case lex_frac r1 of
                  None \<Rightarrow> None
                | Some (f, r2) \<Rightarrow>
                    (case lex_exp r2 of
                       None \<Rightarrow> None
                     | Some (e, r3) \<Rightarrow> Some (neg @ i @ f @ e, r3)))))"

text \<open>Every token consumes input, which is why \<open>tokenize\<close> terminates.\<close>

lemma lex_string_length: "lex_string cs = Some (s, rest) \<Longrightarrow> length rest < length cs"
  by (induction cs arbitrary: s rest rule: lex_string.induct)
     (fastforce split: if_splits list.splits option.splits)+

lemma lex_int_length: "lex_int cs = Some (l, rest) \<Longrightarrow> length rest < length cs"
  by (auto simp: lex_int_def split: list.splits if_splits
      intro: le_imp_less_Suc length_dropWhile_le)

lemma lex_frac_length: "lex_frac cs = Some (l, rest) \<Longrightarrow> length rest \<le> length cs"
  by (auto simp: lex_frac_def split: list.splits if_splits
      intro: le_SucI length_dropWhile_le)

lemma lex_sign_length: "lex_sign cs = (l, rest) \<Longrightarrow> length rest \<le> length cs"
  by (auto simp: lex_sign_def split: list.splits if_splits)

lemma lex_exp_length: "lex_exp cs = Some (l, rest) \<Longrightarrow> length rest \<le> length cs"
  apply (auto simp: lex_exp_def split: list.splits if_splits prod.splits dest!: lex_sign_length)
  using length_dropWhile_le le_SucI le_trans apply blast+
  done

lemma lex_number_length: "lex_number cs = Some (l, rest) \<Longrightarrow> length rest < length cs"
  unfolding lex_number_def
  by (auto split: list.splits if_splits option.splits prod.splits
      dest!: lex_int_length lex_frac_length lex_exp_length)

function tokenize :: "jstring \<Rightarrow> token list option" where
  "tokenize [] = Some []"
| "tokenize (c # cs) =
     (if is_json_ws c then tokenize cs
      else if c = 0x7B then map_option ((#) LBrace) (tokenize cs)
      else if c = 0x7D then map_option ((#) RBrace) (tokenize cs)
      else if c = 0x5B then map_option ((#) LBracket) (tokenize cs)
      else if c = 0x5D then map_option ((#) RBracket) (tokenize cs)
      else if c = 0x3A then map_option ((#) Colon) (tokenize cs)
      else if c = 0x2C then map_option ((#) Comma) (tokenize cs)
      else if c = 0x22 then
        (case lex_string cs of
           None \<Rightarrow> None
         | Some (s, rest) \<Rightarrow> map_option ((#) (TString s)) (tokenize rest))
      else if c = 0x2D \<or> is_digit c then
        (case lex_number (c # cs) of
           None \<Rightarrow> None
         | Some (n, rest) \<Rightarrow> map_option ((#) (TNumber n)) (tokenize rest))
      else if take 4 (c # cs) = utf16 ''true'' then map_option ((#) TTrue) (tokenize (drop 3 cs))
      else if take 5 (c # cs) = utf16 ''false'' then map_option ((#) TFalse) (tokenize (drop 4 cs))
      else if take 4 (c # cs) = utf16 ''null'' then map_option ((#) TNull) (tokenize (drop 3 cs))
      else None)"
  by pat_completeness auto

termination
  by (relation "measure length")
     (auto dest!: lex_string_length lex_number_length)

text \<open>
  The exceptions the modelled code can raise: \<open>SyntaxError\<close> and \<open>TypeError\<close> of the
  language, and the DOM exceptions \<open>QuotaExceededError\<close> (\<open>localStorage.setItem\<close>),
  \<open>InvalidSelector\<close> (the \<open>SyntaxError\<close> DOMException of \<open>querySelector\<close>) and
  \<open>InvalidStateError\<close> (the value setter of a file input).
\<close>

datatype error =
  SyntaxError | TypeError | QuotaExceededError | InvalidSelector | InvalidStateError

text \<open>
  The recogniser: a stack of the arrays and objects under construction and what may
  come next. A finished value is pushed into the enclosing frame, or ends the parse when
  the stack is empty.
\<close>

datatype frame = ArrayFrame "json list" | ObjectFrame "(jstring \<times> json) list" "jstring option"

datatype expect = Value | ValueOrEnd | Key | KeyOrEnd | ColonNext | CommaOrEnd | Finished json

fun push_value :: "json \<Rightarrow> frame list \<Rightarrow> (frame list \<times> expect) option" where
  "push_value v [] = Some ([], Finished v)"
| "push_value v (ArrayFrame xs # st) = Some (ArrayFrame (xs @ [v]) # st, CommaOrEnd)"
| "push_value v (ObjectFrame ms (Some k) # st) =
     Some (ObjectFrame (CreateDataProperty ms k v) None # st, CommaOrEnd)"
| "push_value v (ObjectFrame ms None # st) = None"

fun close_array :: "frame list \<Rightarrow> (frame list \<times> expect) option" where
  "close_array (ArrayFrame xs # st) = push_value (JArray xs) st"
| "close_array _ = None"

fun close_object :: "frame list \<Rightarrow> (frame list \<times> expect) option" where
  "close_object (ObjectFrame ms None # st) = push_value (JObject ms) st"
| "close_object _ = None"

fun set_key :: "jstring \<Rightarrow> frame list \<Rightarrow> (frame list \<times> expect) option" where
  "set_key k (ObjectFrame ms None # st) = Some (ObjectFrame ms (Some k) # st, ColonNext)"
| "set_key k _ = None"

fun start_value :: "frame list \<Rightarrow> token \<Rightarrow> (frame list \<times> expect) option" where
  "start_value st LBrace = Some (ObjectFrame [] None # st, KeyOrEnd)"
| "start_value st LBracket = Some (ArrayFrame [] # st, ValueOrEnd)"
| "start_value st (TString s) = push_value (JString s) st"
| "start_value st (TNumber n) = push_value (JNumber n) st"
| "start_value st TTrue = push_value (JBool True) st"
| "start_value st TFalse = push_value (JBool False) st"
| "start_value st TNull = push_value JNull st"
| "start_value st _ = None"

fun after_comma :: "frame list \<Rightarrow> (frame list \<times> expect) option" where
  "after_comma (ArrayFrame xs # st) = Some (ArrayFrame xs # st, Value)"
| "after_comma (ObjectFrame ms None # st) = Some (ObjectFrame ms None # st, Key)"
| "after_comma _ = None"

fun parse_step :: "frame list \<times> expect \<Rightarrow> token \<Rightarrow> (frame list \<times> expect) option" where
  "parse_step (st, Value) t = start_value st t"
| "parse_step (st, ValueOrEnd) t = (if t = RBracket then close_array st else start_value st t)"
| "parse_step (st, Key) t = (case t of TString k \<Rightarrow> set_key k st | _ \<Rightarrow> None)"
| "parse_step (st, KeyOrEnd) t =
     (case t of TString k \<Rightarrow> set_key k st | RBrace \<Rightarrow> close_object st | _ \<Rightarrow> None)"
| "parse_step (st, ColonNext) t = (if t = Colon then Some (st, Value) else None)"
| "parse_step (st, CommaOrEnd) t =
     (case t of
        Comma \<Rightarrow> after_comma st
      | RBracket \<Rightarrow> close_array st
      | RBrace \<Rightarrow> close_object st
      | _ \<Rightarrow> None)"
| "parse_step (st, Finished v) t = None"

fun parse_tokens :: "frame list \<times> expect \<Rightarrow> token list \<Rightarrow> (frame list \<times> expect) option" where
  "parse_tokens s [] = Some s"
| "parse_tokens s (t # ts) =
     (case parse_step s t of None \<Rightarrow> None | Some s' \<Rightarrow> parse_tokens s' ts)"

definition JSON_parse :: "jstring \<Rightarrow> error + json" where
  "JSON_parse text =
     (case tokenize text of
        None \<Rightarrow> Inl SyntaxError
      | Some ts \<Rightarrow>
          (case parse_tokens ([], Value) ts of
             Some ([], Finished v) \<Rightarrow> Inr v
           | _ \<Rightarrow> Inl SyntaxError))"

section \<open>JSON.stringify\<close>

text \<open>
  \<open>JSON.stringify(formData)\<close> for an object whose values are strings, with no
  indentation (ECMA-262, 25.5.2): \<open>QuoteJSONString\<close> escapes the quote, the backslash,
  the control characters and lone surrogates; a surrogate pair is copied as it is.
\<close>

definition is_high_surrogate :: "16 word \<Rightarrow> bool" where
  "is_high_surrogate c \<longleftrightarrow> 0xD800 \<le> c \<and> c \<le> 0xDBFF"

definition is_low_surrogate :: "16 word \<Rightarrow> bool" where
  "is_low_surrogate c \<longleftrightarrow> 0xDC00 \<le> c \<and> c \<le> 0xDFFF"

definition hex_digit :: "16 word \<Rightarrow> 16 word" where
  "hex_digit d = (if d < 10 then 0x30 + d else 0x61 + (d - 10))"

definition UnicodeEscape :: "16 word \<Rightarrow> jstring" where
  "UnicodeEscape c =
     [0x5C, 0x75, hex_digit (drop_bit 12 c AND 0xF), hex_digit (drop_bit 8 c AND 0xF),
      hex_digit (drop_bit 4 c AND 0xF), hex_digit (c AND 0xF)]"

definition quote_unit :: "16 word \<Rightarrow> jstring" where
  "quote_unit c =
     (if c = 0x8 then [0x5C, 0x62]
      else if c = 0x9 then [0x5C, 0x74]
      else if c = 0xA then [0x5C, 0x6E]
      else if c = 0xC then [0x5C, 0x66]
      else if c = 0xD then [0x5C, 0x72]
      else if c = 0x22 then [0x5C, 0x22]
      else if c = 0x5C then [0x5C, 0x5C]
      else if c < 0x20 \<or> is_high_surrogate c \<or> is_low_surrogate c then UnicodeEscape c
      else [c])"

fun quote_body :: "jstring \<Rightarrow> jstring" where
  "quote_body [] = []"
| "quote_body [c] = quote_unit c"
| "quote_body (c # d # cs) =
     (if is_high_surrogate c \<and> is_low_surrogate d then c # d # quote_body cs
      else quote_unit c @ quote_body (d # cs))"

definition QuoteJSONString :: "jstring \<Rightarrow> jstring" where
  "QuoteJSONString s = 0x22 # quote_body s @ [0x22]"

fun stringify_members :: "(jstring \<times> jstring) list \<Rightarrow> jstring" where
  "stringify_members [] = []"
| "stringify_members [(k, v)] = QuoteJSONString k @ 0x3A # QuoteJSONString v"
| "stringify_members ((k, v) # m # ms) =
     QuoteJSONString k @ 0x3A # QuoteJSONString v @ 0x2C # stringify_members (m # ms)"

definition JSON_stringify :: "(jstring \<times> jstring) list \<Rightarrow> jstring" where
  "JSON_stringify obj = 0x7B # stringify_members obj @ [0x7D]"

section \<open>The admin script: local auto-save of form drafts\<close>

text \<open>
  A call either returns or throws; a throw carries the state reached, since what was
  mutated before an exception stays mutated.
\<close>

datatype 'a outcome = Returned 'a | Thrown error 'a

fun state_of :: "'a outcome \<Rightarrow> 'a" where
  "state_of (Returned s) = s"
| "state_of (Thrown e s) = s"

text \<open>
  \<open>localStorage\<close>: the stored items, a quota on the code units of all keys and values,
  and whether the store is available for writing. \<open>setItem\<close> throws
  \<open>QuotaExceededError\<close> when the store is not available (a private window of older
  Safari: the object is there, reading works, every write is turned down) or when the
  write would exceed the quota; \<open>getItem\<close> and \<open>removeItem\<close> never throw. How a browser
  counts the quota is its own business; only a store that turns the write down matters
  below. A browser that denies the page the \<open>localStorage\<close> object altogether is not
  modelled. \<open>setItem_calls\<close> counts the calls of \<open>setItem\<close> the store has received,
  whether they succeeded or not; nothing reads it, it is how a second attempt at a write
  would show.
\<close>

record storage =
  items :: "(jstring \<times> jstring) list"
  quota :: nat
  available :: bool
  setItem_calls :: nat

definition usage :: "(jstring \<times> jstring) list \<Rightarrow> nat" where
  "usage kvs = sum_list (map (\<lambda>(k, v). length k + length v) kvs)"

definition getItem :: "storage \<Rightarrow> jstring \<Rightarrow> jstring option" where
  "getItem st k = map_of (items st) k"

definition setItem :: "storage \<Rightarrow> jstring \<Rightarrow> jstring \<Rightarrow> storage outcome" where
  "setItem st k v =
     (if \<not> available st \<or> quota st < usage (AList.update k v (items st))
      then Thrown QuotaExceededError (st\<lparr>setItem_calls := Suc (setItem_calls st)\<rparr>)
      else Returned (st\<lparr>items := AList.update k v (items st),
                        setItem_calls := Suc (setItem_calls st)\<rparr>))"

definition removeItem :: "storage \<Rightarrow> jstring \<Rightarrow> storage" where
  "removeItem st k = st\<lparr>items := AList.delete k (items st)\<rparr>"

text \<open>
  A form is its \<open>id\<close> attribute and, in document order, its descendant elements that
  have a \<open>value\<close> property: \<open>input\<close>, \<open>textarea\<close> and \<open>select\<close> elements (the
  \<open>inputs\<close> of the script) and others such as \<open>button\<close>, which
  \<open>form.querySelector('[name=...]')\<close> can also return. An element is an object with an
  identity, \<open>node\<close>: two references to the same element see the same value, and an
  element stays the same object when its value changes or when it is moved or removed.
  Each element carries its \<open>name\<close> attribute, its value, its inline background, and the
  auto-save change listeners attached to it. Such a listener is a closure over the two
  constants of lines 306 and 307: \<open>formId\<close>, and \<open>inputs\<close>, the static list
  \<open>querySelectorAll\<close> returned, here the identities of its elements in document order. A
  form carries the form ids captured by its submit listeners. A page is its forms, the
  elements that were removed from the document and still exist because a listener refers
  to them, and the store.
\<close>

datatype tag = Input | Textarea | Select | OtherElement

record element =
  tag :: tag
  name_attr :: "jstring option"
  el_value :: jstring
  background :: jstring
  change_listeners :: "(jstring \<times> nat list) list"
  node :: nat

record form =
  id_attr :: "jstring option"
  elements :: "element list"
  submit_listeners :: "jstring list"

record page =
  forms :: "form list"
  detached :: "element list"
  localStorage :: storage

text \<open>
  What the browser decides and the script does not: the element a selector selects when
  the name is not copied verbatim into the selector's string (it holds a quote, a
  backslash, a line break, NUL or a surrogate, so that the selector may be invalid or
  mean something else), and the text a control holds after \<open>input.value = v\<close>, or the
  exception of its setter (value sanitisation, \<open>ToString\<close> of a value that is not a
  string). Both are parameters; every theorem holds for every host.
\<close>

datatype selected = InvalidSelectorText | NoMatch | Match nat

record host =
  select_other :: "jstring \<Rightarrow> element list \<Rightarrow> selected"
  assign_value :: "element \<Rightarrow> json \<Rightarrow> error + jstring"

text \<open>
  \<open>form.querySelector(`[name="${name}"]`)\<close>: for a name that is copied verbatim, the
  first element whose \<open>name\<close> attribute is that name.
\<close>

definition css_plain :: "jstring \<Rightarrow> bool" where
  "css_plain name \<longleftrightarrow>
     list_all (\<lambda>c. c \<noteq> 0x0 \<and> c \<noteq> 0xA \<and> c \<noteq> 0xC \<and> c \<noteq> 0xD \<and> c \<noteq> 0x22 \<and> c \<noteq> 0x5C
                   \<and> \<not> is_high_surrogate c \<and> \<not> is_low_surrogate c) name"

fun first_index :: "('a \<Rightarrow> bool) \<Rightarrow> 'a list \<Rightarrow> nat option" where
  "first_index P [] = None"
| "first_index P (x # xs) = (if P x then Some 0 else map_option Suc (first_index P xs))"

definition querySelector_name :: "host \<Rightarrow> element list \<Rightarrow> jstring \<Rightarrow> selected" where
  "querySelector_name h els name =
     (if css_plain name then
        (case first_index (\<lambda>el. name_attr el = Some name) els of
           None \<Rightarrow> NoMatch
         | Some i \<Rightarrow> Match i)
      else select_other h name els)"

text \<open>
  The entries \<open>Object.keys(data).forEach\<close> visits with \<open>data[name]\<close>: the members
  of an object, the elements of an array and the code units of a string under their
  indices, nothing for a number or a boolean. \<open>Object.keys(null)\<close> throws.
\<close>

fun index_from :: "int \<Rightarrow> 'a list \<Rightarrow> (jstring \<times> 'a) list" where
  "index_from i [] = []"
| "index_from i (x # xs) = (decimal i, x) # index_from (i + 1) xs"

fun own_entries :: "json \<Rightarrow> (jstring \<times> json) list option" where
  "own_entries JNull = None"
| "own_entries (JBool b) = Some []"
| "own_entries (JNumber n) = Some []"
| "own_entries (JString s) = Some (index_from 0 (map (\<lambda>c. JString [c]) s))"
| "own_entries (JArray xs) = Some (index_from 0 xs)"
| "own_entries (JObject ms) = Some ms"

text \<open>
  Lines 313-319, the callback of \<open>Object.keys(data).forEach\<close>: look the field up; if
  it exists and its value is empty, assign the saved value and highlight it.
\<close>

definition restore_field :: "host \<Rightarrow> element list \<Rightarrow> jstring \<times> json \<Rightarrow> element list outcome" where
  "restore_field h els entry =
     (case querySelector_name h els (fst entry) of
        InvalidSelectorText \<Rightarrow> Thrown InvalidSelector els
      | NoMatch \<Rightarrow> Returned els
      | Match i \<Rightarrow>
          if i < length els \<and> el_value (els ! i) = [] then
            (case assign_value h (els ! i) (snd entry) of
               Inl e \<Rightarrow> Thrown e els
             | Inr s \<Rightarrow>
                 Returned (els[i := (els ! i)\<lparr>el_value := s, background := utf16 ''#fef3c7''\<rparr>]))
          else Returned els)"

fun restore_fields :: "host \<Rightarrow> element list \<Rightarrow> (jstring \<times> json) list \<Rightarrow> element list outcome" where
  "restore_fields h els [] = Returned els"
| "restore_fields h els (entry # entries) =
     (case restore_field h els entry of
        Thrown e els' \<Rightarrow> Thrown e els'
      | Returned els' \<Rightarrow> restore_fields h els' entries)"

text \<open>
  Lines 309-320, "Load saved data": \<open>savedData\<close> is what \<open>getItem\<close> returned; a
  missing item and the empty string are falsy.
\<close>

definition load_saved_data :: "host \<Rightarrow> jstring option \<Rightarrow> element list \<Rightarrow> element list outcome" where
  "load_saved_data h savedData els =
     (case savedData of
        None \<Rightarrow> Returned els
      | Some text \<Rightarrow>
          if text = [] then Returned els
          else
            (case JSON_parse text of
               Inl e \<Rightarrow> Thrown e els
             | Inr data \<Rightarrow>
                 (case own_entries data of
                    None \<Rightarrow> Thrown TypeError els
                  | Some entries \<Rightarrow> restore_fields h els entries)))"

text \<open>
  Line 307: \<open>form.getAttribute('id') || 'admin-form'\<close>, and the storage key
  \<open>autosave-${formId}\<close>.
\<close>

definition form_key :: "form \<Rightarrow> jstring" where
  "form_key f =
     (case id_attr f of
        None \<Rightarrow> utf16 ''admin-form''
      | Some i \<Rightarrow> if i = [] then utf16 ''admin-form'' else i)"

definition storage_key :: "jstring \<Rightarrow> jstring" where
  "storage_key formId = utf16 ''autosave-'' @ formId"

text \<open>
  Lines 322-333, "Save on change". \<open>inp.name\<close> reflects the \<open>name\<close> attribute (empty
  when absent). The assignment \<open>formData[inp.name] = inp.value\<close> defines an own property
  unless the name is \<open>__proto__\<close>: that one reaches the setter inherited from
  \<open>Object.prototype\<close>, which ignores a string.
\<close>

definition is_input :: "element \<Rightarrow> bool" where
  "is_input el \<longleftrightarrow> tag el = Input \<or> tag el = Textarea \<or> tag el = Select"

definition form_inputs :: "form \<Rightarrow> element list" where
  "form_inputs f = filter is_input (elements f)"

definition inp_name :: "element \<Rightarrow> jstring" where
  "inp_name el = (case name_attr el of None \<Rightarrow> [] | Some n \<Rightarrow> n)"

definition obj_set :: "(jstring \<times> jstring) list \<Rightarrow> jstring \<Rightarrow> jstring \<Rightarrow> (jstring \<times> jstring) list" where
  "obj_set obj k v = (if k = utf16 ''__proto__'' then obj else CreateDataProperty obj k v)"

definition collect_formData :: "element list \<Rightarrow> (jstring \<times> jstring) list" where
  "collect_formData inputs =
     foldl (\<lambda>formData inp. if inp_name inp \<noteq> [] then obj_set formData (inp_name inp) (el_value inp)
                            else formData) [] inputs"

text \<open>
  The listener, lines 324-332, for the elements \<open>inputs\<close> refers to as they are when it
  runs. It contains one call of \<open>setItem\<close> and no \<open>try\<close>: what \<open>setItem\<close> throws
  leaves the listener.
\<close>

definition save_on_change :: "jstring \<Rightarrow> element list \<Rightarrow> storage \<Rightarrow> storage outcome" where
  "save_on_change formId inputs st =
     setItem st (storage_key formId) (JSON_stringify (collect_formData inputs))"

text \<open>Lines 335-338, "Clear on submit".\<close>

definition clear_on_submit :: "jstring \<Rightarrow> storage \<Rightarrow> storage" where
  "clear_on_submit formId st = removeItem st (storage_key formId)"

text \<open>
  Lines 305-339, the body of \<open>forms.forEach\<close> for one form: restore, then attach the
  change listener to every input and the submit listener to the form. The listener of
  every input closes over the same \<open>inputs\<close>, the inputs the form has at line 306. An
  exception leaves the loop, so the listeners of this form and everything for the later
  forms are skipped.
\<close>

definition initAutoSave_form :: "host \<Rightarrow> storage \<Rightarrow> form \<Rightarrow> form outcome" where
  "initAutoSave_form h st f =
     (case load_saved_data h (getItem st (storage_key (form_key f))) (elements f) of
        Thrown e els \<Rightarrow> Thrown e (f\<lparr>elements := els\<rparr>)
      | Returned els \<Rightarrow>
          Returned (f\<lparr>elements :=
                        map (\<lambda>el. if is_input el
                                   then el\<lparr>change_listeners := change_listeners el @
                                          [(form_key f, map node (form_inputs f))]\<rparr>
                                   else el) els,
                      submit_listeners := submit_listeners f @ [form_key f]\<rparr>))"

fun initAutoSave_forms :: "host \<Rightarrow> storage \<Rightarrow> form list \<Rightarrow> form list outcome" where
  "initAutoSave_forms h st [] = Returned []"
| "initAutoSave_forms h st (f # fs) =
     (case initAutoSave_form h st f of
        Thrown e f' \<Rightarrow> Thrown e (f' # fs)
      | Returned f' \<Rightarrow>
          (case initAutoSave_forms h st fs of
             Thrown e fs' \<Rightarrow> Thrown e (f' # fs')
           | Returned fs' \<Rightarrow> Returned (f' # fs')))"

definition initAutoSave :: "host \<Rightarrow> page \<Rightarrow> page outcome" where
  "initAutoSave h p =
     (case initAutoSave_forms h (localStorage p) (forms p) of
        Thrown e fs \<Rightarrow> Thrown e (p\<lparr>forms := fs\<rparr>)
      | Returned fs \<Rightarrow> Returned (p\<lparr>forms := fs\<rparr>))"

text \<open>
  Lines 8-18, the \<open>DOMContentLoaded\<close> handler. The six initialisers touch classes,
  styles other than the background, focus, text content and listeners for \<open>click\<close>,
  \<open>blur\<close>, \<open>input\<close> and \<open>mouseenter\<close>: nothing of the state modelled here, on which
  they are the identity.
\<close>

definition initDashboardStats :: "page \<Rightarrow> page" where "initDashboardStats p = p"

definition initTableEnhancements :: "page \<Rightarrow> page" where "initTableEnhancements p = p"

definition initFormEnhancements :: "page \<Rightarrow> page" where "initFormEnhancements p = p"

definition initSearchEnhancements :: "page \<Rightarrow> page" where "initSearchEnhancements p = p"

definition initAnimations :: "page \<Rightarrow> page" where "initAnimations p = p"

definition initTooltips :: "page \<Rightarrow> page" where "initTooltips p = p"

definition admin_DOMContentLoaded :: "page \<Rightarrow> page" where
  "admin_DOMContentLoaded p =
     initTooltips (initAnimations (initSearchEnhancements (initFormEnhancements
       (initTableEnhancements (initDashboardStats p)))))"

text \<open>
  The elements a listener's \<open>inputs\<close> refers to, as they are now: each identity is
  looked up among the elements that exist. The list was fixed at line 306: an input
  added to the form later is not in it, and an input removed later still is, with the
  name and value it has now. (An element the list refers to exists; identities are
  unique.)
\<close>

definition captured_inputs :: "nat list \<Rightarrow> element list \<Rightarrow> element list" where
  "captured_inputs ids pool = List.map_filter (\<lambda>n. List.find (\<lambda>el. node el = n) pool) ids"

definition page_elements :: "page \<Rightarrow> element list" where
  "page_elements p = concat (map elements (forms p)) @ detached p"

text \<open>
  Dispatching an event runs the listeners in the order they were attached. An exception
  that leaves a listener is not caught by anything in the script: the dispatcher reports
  it as uncaught and goes on with the next listener. A change event on an element of a
  page runs that element's listeners; they read the elements and write the store.
\<close>

fun change_event ::
  "(jstring \<times> nat list) list \<Rightarrow> element list \<Rightarrow> storage \<Rightarrow> storage \<times> error list" where
  "change_event [] pool st = (st, [])"
| "change_event (listener # listeners) pool st =
     (case save_on_change (fst listener) (captured_inputs (snd listener) pool) st of
        Returned st' \<Rightarrow> change_event listeners pool st'
      | Thrown e st' \<Rightarrow> (case change_event listeners pool st' of (st'', es) \<Rightarrow> (st'', e # es)))"

definition fire_change :: "page \<Rightarrow> element \<Rightarrow> page \<times> error list" where
  "fire_change p el =
     (case change_event (change_listeners el) (page_elements p) (localStorage p) of
        (st, es) \<Rightarrow> (p\<lparr>localStorage := st\<rparr>, es))"

definition submit_event :: "form \<Rightarrow> storage \<Rightarrow> storage" where
  "submit_event f st = foldl (\<lambda>st formId. clear_on_submit formId st) st (submit_listeners f)"

section \<open>Notions of the specification and example inputs\<close>

text \<open>
  The specification's \<open>encode\<close> is \<open>JSON_stringify\<close>. Its \<open>decode\<close> is
  \<open>JSON_parse\<close> followed by the check that the value is a record: an object whose
  values are all strings.
\<close>

definition json_of_record :: "(jstring \<times> jstring) list \<Rightarrow> json" where
  "json_of_record r = JObject (map (\<lambda>(k, v). (k, JString v)) r)"

definition decode_record :: "jstring \<Rightarrow> (jstring \<times> jstring) list option" where
  "decode_record x =
     (case JSON_parse x of
        Inr (JObject ms) \<Rightarrow>
          (if list_all (\<lambda>m. case snd m of JString s \<Rightarrow> True | _ \<Rightarrow> False) ms
           then Some (map (\<lambda>m. (fst m, case snd m of JString s \<Rightarrow> s | _ \<Rightarrow> [])) ms)
           else None)
      | _ \<Rightarrow> None)"


text \<open>Auxiliary notions of the round-trip proof: the tokens of an encoded record, and
  the object \<open>JSON_parse\<close> builds from them.\<close>

fun member_tokens :: "(jstring \<times> jstring) list \<Rightarrow> token list" where
  "member_tokens [] = []"
| "member_tokens [(k, v)] = [TString k, Colon, TString v]"
| "member_tokens ((k, v) # m # ms) = TString k # Colon # TString v # Comma # member_tokens (m # ms)"

definition define_all :: "(jstring \<times> json) list \<Rightarrow> (jstring \<times> jstring) list \<Rightarrow> (jstring \<times> json) list" where
  "define_all obj r = foldl (\<lambda>obj (k, v). CreateDataProperty obj k (JString v)) obj r"

text \<open>
  The invariant of the recogniser: every object under construction is an ordinary
  object, and so is an object the parse ends with.
\<close>

fun ordinary_frame :: "frame \<Rightarrow> bool" where
  "ordinary_frame (ArrayFrame xs) = True"
| "ordinary_frame (ObjectFrame ms k) = ordinary_object ms"

fun ordinary_value :: "json \<Rightarrow> bool" where
  "ordinary_value (JObject ms) = ordinary_object ms"
| "ordinary_value v = True"

fun ordinary_state :: "frame list \<times> expect \<Rightarrow> bool" where
  "ordinary_state (st, Finished v) = (list_all ordinary_frame st \<and> ordinary_value v)"
| "ordinary_state (st, e) = list_all ordinary_frame st"

text \<open>
  Example inputs. The example host stores an assigned string as it is; the examples
  use verbatim names and string values only, so its other cases are never reached.
  \<open>profile_form\<close> is the form of the specification's scenario, \<open>draft_page\<close> a page
  holding it together with a stored draft.
\<close>

definition example_host :: host where
  "example_host =
     \<lparr>select_other = (\<lambda>name els. InvalidSelectorText),
      assign_value = (\<lambda>el v. case v of JString s \<Rightarrow> Inr s | _ \<Rightarrow> Inr [])\<rparr>"

definition text_input :: "string \<Rightarrow> string \<Rightarrow> element" where
  "text_input name v =
     \<lparr>tag = Input, name_attr = Some (utf16 name), el_value = utf16 v, background = [],
      change_listeners = [], node = 0\<rparr>"

text \<open>The elements of a document, given their identities in document order.\<close>

definition numbered :: "element list \<Rightarrow> element list" where
  "numbered els = map (\<lambda>(n, el). el\<lparr>node := n\<rparr>) (enumerate 0 els)"

definition profile_form :: form where
  "profile_form =
     \<lparr>id_attr = Some (utf16 ''profile-form''),
      elements = numbered [text_input ''name'' '''', text_input ''bio'' ''''],
      submit_listeners = []\<rparr>"

text \<open>
  Stores: one that holds the given items, the store of a private window, which accepts
  no write, and one with room for ten code units.
\<close>

definition store_of :: "(jstring \<times> jstring) list \<Rightarrow> storage" where
  "store_of kvs = \<lparr>items = kvs, quota = 100, available = True, setItem_calls = 0\<rparr>"

definition private_store :: storage where
  "private_store = \<lparr>items = [], quota = 100, available = False, setItem_calls = 0\<rparr>"

definition small_store :: storage where
  "small_store = \<lparr>items = [], quota = 10, available = True, setItem_calls = 0\<rparr>"

definition draft_page :: page where
  "draft_page =
     \<lparr>forms = [profile_form],
      detached = [],
      localStorage =
        store_of [(utf16 ''autosave-profile-form'',
                   JSON_stringify [(utf16 ''name'', utf16 ''Alice''), (utf16 ''bio'', [])])]\<rparr>"

text \<open>The user typing \<open>v\<close> into the element at position \<open>j\<close>.\<close>

definition typed :: "nat \<Rightarrow> string \<Rightarrow> form \<Rightarrow> form" where
  "typed j v f = f\<lparr>elements := (elements f)[j := (elements f ! j)\<lparr>el_value := utf16 v\<rparr>]\<rparr>"

text \<open>
  \<open>profile-form\<close> after \<open>initAutoSave\<close> has processed it on an empty store, the
  page on which the user has then typed Alice into \<open>name\<close>, with a given store, and
  the \<open>name\<close> field of that page.
\<close>

definition tracked_profile_form :: form where
  "tracked_profile_form = state_of (initAutoSave_form example_host (store_of []) profile_form)"

definition edited_page :: "storage \<Rightarrow> page" where
  "edited_page st =
     \<lparr>forms = [typed 0 ''Alice'' tracked_profile_form], detached = [], localStorage = st\<rparr>"

definition edited_name_field :: element where
  "edited_name_field = hd (elements (typed 0 ''Alice'' tracked_profile_form))"

section \<open>Properties of the currency symbol script\<close>

lemma CURRENCY_SYMBOLS_nonempty:
  "map_of CURRENCY_SYMBOLS c = Some symbol \<Longrightarrow> c \<noteq> [] \<and> symbol \<noteq> []"
  by (auto simp: CURRENCY_SYMBOLS_def utf16_def split: if_splits)

lemma get_property_own:
  "map_of CURRENCY_SYMBOLS c = Some symbol \<Longrightarrow> get_property CURRENCY_SYMBOLS c = Str symbol"
  by (simp add: get_property_def)

lemma updateCurrencySymbol_own_entry:
  assumes "map_of CURRENCY_SYMBOLS c = Some symbol"
  shows "updateCurrencySymbol c f =
           (if trim (symbol_value f) = [] \<or> trim (symbol_value f) = utf16 ''$''
               \<or> trim (symbol_value f) = [0x20A6]
            then f\<lparr>symbol_value := symbol, backgroundColor := utf16 ''#d1fae5'',
                   pending_timeouts := Suc (pending_timeouts f)\<rparr>
            else f)"
  using CURRENCY_SYMBOLS_nonempty [OF assms] get_property_own [OF assms]
  by (simp add: updateCurrencySymbol_def Let_def)

lemma trim_examples:
  "trim (utf16 '' $ '') = utf16 ''$''"
  "trim (utf16 ''Rs'') = utf16 ''Rs''"
  "trim [0x20A6] = [0x20A6]"
  "trim [] = []"
  by (simp_all add: trim_def utf16_def is_js_space_def)

text \<open>
  Claim C8. When the selected currency is one of the codes of \<open>CURRENCY_SYMBOLS\<close>,
  \<open>updateCurrencySymbol\<close> writes the mapped symbol into the symbol field exactly when
  the field's trimmed value is empty, the dollar sign or the naira sign; with any other
  value the whole field (value, colour, timers) is left as it was.
\<close>

theorem updateCurrencySymbol_known_currency:
  assumes "map_of CURRENCY_SYMBOLS c = Some symbol"
  shows "(trim (symbol_value f) \<in> {[], utf16 ''$'', [0x20A6]} \<longrightarrow>
            symbol_value (updateCurrencySymbol c f) = symbol) \<and>
         (trim (symbol_value f) \<notin> {[], utf16 ''$'', [0x20A6]} \<longrightarrow>
            updateCurrencySymbol c f = f)"
  by (auto simp: updateCurrencySymbol_own_entry [OF assms])

theorem updateCurrencySymbol_known_currency_witness:
  "symbol_value (updateCurrencySymbol (utf16 ''NGN'')
      \<lparr>symbol_value = utf16 '' $ '', backgroundColor = [], pending_timeouts = 0\<rparr>) = [0x20A6]
   \<and> updateCurrencySymbol (utf16 ''NGN'')
        \<lparr>symbol_value = utf16 ''Rs'', backgroundColor = [], pending_timeouts = 0\<rparr>
     = \<lparr>symbol_value = utf16 ''Rs'', backgroundColor = [], pending_timeouts = 0\<rparr>"
proof -
  have m: "map_of CURRENCY_SYMBOLS (utf16 ''NGN'') = Some [0x20A6]"
    by (simp add: CURRENCY_SYMBOLS_def utf16_def)
  have n: "utf16 ''Rs'' \<notin> {[], utf16 ''$'', [0x20A6]}"
    by (simp add: utf16_def)
  show ?thesis
    using updateCurrencySymbol_known_currency [OF m,
            of "\<lparr>symbol_value = utf16 '' $ '', backgroundColor = [], pending_timeouts = 0\<rparr>"]
          updateCurrencySymbol_known_currency [OF m,
            of "\<lparr>symbol_value = utf16 ''Rs'', backgroundColor = [], pending_timeouts = 0\<rparr>"]
          n
    by (simp add: trim_examples)
qed

text \<open>
  What holds of the frame: when the selected value is empty, or the property read
  \<open>CURRENCY_SYMBOLS[selectedCurrency]\<close> yields \<open>undefined\<close>, the field is unchanged.
\<close>

lemma updateCurrencySymbol_no_property:
  assumes "c = [] \<or> get_property CURRENCY_SYMBOLS c = Undefined"
  shows "updateCurrencySymbol c f = f"
  using assms by (auto simp: updateCurrencySymbol_def)

text \<open>
  Claim C9. The selected value \<open>constructor\<close> is not a code of \<open>CURRENCY_SYMBOLS\<close>,
  yet the read \<open>CURRENCY_SYMBOLS['constructor']\<close> finds the function inherited from
  \<open>Object.prototype\<close>, which is truthy: an empty symbol field is overwritten with the
  function's text.
\<close>

theorem updateCurrencySymbol_inherited_property:
  "map_of CURRENCY_SYMBOLS (utf16 ''constructor'') = None \<and>
   symbol_value (updateCurrencySymbol (utf16 ''constructor'')
      \<lparr>symbol_value = [], backgroundColor = [], pending_timeouts = 0\<rparr>)
     = utf16 ''function Object() { [native code] }''"
  by (simp add: updateCurrencySymbol_def get_property_def CURRENCY_SYMBOLS_def
        Object_prototype_def utf16_def trim_def)

lemma updateCurrencySymbol_iterate:
  assumes "map_of CURRENCY_SYMBOLS c = Some symbol" and "symbol_value g = symbol"
  shows "symbol_value ((updateCurrencySymbol c ^^ n) g) = symbol"
  using assms(2)
  by (induction n) (simp_all add: updateCurrencySymbol_own_entry [OF assms(1)])

lemma tenant_DOMContentLoaded_field:
  assumes "currencyField p = Some c" and "currencySymbolField p = Some f"
  shows "currencySymbolField (tenant_DOMContentLoaded p) =
           Some (if c \<noteq> [] \<and> (trim (symbol_value f) = [] \<or> trim (symbol_value f) = utf16 ''$'')
                 then updateCurrencySymbol c f else f)"
    and "currency_listeners (tenant_DOMContentLoaded p) = Suc (currency_listeners p)"
    and "currencyField (tenant_DOMContentLoaded p) = Some c"
  using assms by (simp_all add: tenant_DOMContentLoaded_def Let_def)

text \<open>
  Claim C10. On a page that has both fields, the load handler calls
  \<open>updateCurrencySymbol\<close> only when the currency is set and the trimmed symbol is empty
  or the dollar sign. A symbol whose trimmed value is the naira sign is therefore left
  alone at load, whereas a later change event that selects any currency of
  \<open>CURRENCY_SYMBOLS\<close> replaces it with that currency's symbol.
\<close>

theorem page_load_trigger:
  assumes "currencyField p = Some c" and "currencySymbolField p = Some f"
  shows "currencySymbolField (tenant_DOMContentLoaded p) =
           Some (if c \<noteq> [] \<and> (trim (symbol_value f) = [] \<or> trim (symbol_value f) = utf16 ''$'')
                 then updateCurrencySymbol c f else f) \<and>
         (trim (symbol_value f) = [0x20A6] \<longrightarrow>
            currencySymbolField (tenant_DOMContentLoaded p) = Some f \<and>
            (\<forall>c' symbol. map_of CURRENCY_SYMBOLS c' = Some symbol \<longrightarrow>
               map_option symbol_value
                 (currencySymbolField (currency_change c' (tenant_DOMContentLoaded p)))
               = Some symbol))"
proof (intro conjI impI allI)
  note loaded = tenant_DOMContentLoaded_field [OF assms]
  show "currencySymbolField (tenant_DOMContentLoaded p) =
           Some (if c \<noteq> [] \<and> (trim (symbol_value f) = [] \<or> trim (symbol_value f) = utf16 ''$'')
                 then updateCurrencySymbol c f else f)"
    by (rule loaded(1))
  assume t: "trim (symbol_value f) = [0x20A6]"
  then show kept: "currencySymbolField (tenant_DOMContentLoaded p) = Some f"
    using loaded(1) by (simp add: utf16_def)
  fix c' symbol
  assume m: "map_of CURRENCY_SYMBOLS c' = Some symbol"
  have "symbol_value (updateCurrencySymbol c' f) = symbol"
    using t by (simp add: updateCurrencySymbol_own_entry [OF m])
  then have "symbol_value
      ((updateCurrencySymbol c' ^^ currency_listeners p) (updateCurrencySymbol c' f)) = symbol"
    by (rule updateCurrencySymbol_iterate [OF m])
  then show "map_option symbol_value
      (currencySymbolField (currency_change c' (tenant_DOMContentLoaded p))) = Some symbol"
    using kept loaded(2,3) by (simp add: currency_change_def funpow_swap1)
qed

theorem page_load_trigger_witness:
  "currencySymbolField (tenant_DOMContentLoaded
      \<lparr>currencyField = Some (utf16 ''NGN''),
       currencySymbolField =
         Some \<lparr>symbol_value = [0x20A6], backgroundColor = [], pending_timeouts = 0\<rparr>,
       currency_listeners = 0, wrapper_help = Some 0\<rparr>)
     = Some \<lparr>symbol_value = [0x20A6], backgroundColor = [], pending_timeouts = 0\<rparr>
   \<and> map_option symbol_value (currencySymbolField (currency_change (utf16 ''USD'')
        (tenant_DOMContentLoaded
          \<lparr>currencyField = Some (utf16 ''NGN''),
           currencySymbolField =
             Some \<lparr>symbol_value = [0x20A6], backgroundColor = [], pending_timeouts = 0\<rparr>,
           currency_listeners = 0, wrapper_help = Some 0\<rparr>)))
     = Some (utf16 ''$'')"
proof -
  let ?f = "\<lparr>symbol_value = [0x20A6], backgroundColor = [], pending_timeouts = 0\<rparr>"
  let ?p = "\<lparr>currencyField = Some (utf16 ''NGN''), currencySymbolField = Some ?f,
             currency_listeners = 0, wrapper_help = Some 0\<rparr>"
  have a: "currencyField ?p = Some (utf16 ''NGN'')" by simp
  have b: "currencySymbolField ?p = Some ?f" by simp
  have t: "trim (symbol_value ?f) = [0x20A6]" by (simp add: trim_examples)
  have m: "map_of CURRENCY_SYMBOLS (utf16 ''USD'') = Some (utf16 ''$'')"
    by (simp add: CURRENCY_SYMBOLS_def utf16_def)
  from page_load_trigger [OF a b] t m show ?thesis by blast
qed

section \<open>The round trip of an encoded record\<close>

subsection \<open>Escapes\<close>

lemma nibble_lt: "(x :: 16 word) AND 0xF < 16"
  using word_and_le1 [of x "0xF"] by uint_arith

lemma mask4: "(0xF :: 16 word) = mask 4" by (simp add: mask_eq_exp_minus_1)

lemma rebuild: "push_bit 12 (drop_bit 12 c AND 0xF) OR push_bit 8 (drop_bit 8 c AND 0xF) OR push_bit 4 (drop_bit 4 c AND 0xF) OR (c AND 0xF) = (c :: 16 word)"
  unfolding mask4
  apply (rule bit_word_eqI)
  subgoal for n
    by (cases "n < 4"; cases "n < 8"; cases "n < 12") (auto simp: bit_simps)
  done

lemma nibble_cases: "(d :: 16 word) < 16 \<Longrightarrow> d = 0 \<or> d = 1 \<or> d = 2 \<or> d = 3 \<or> d = 4 \<or> d = 5 \<or> d = 6 \<or> d = 7 \<or> d = 8 \<or> d = 9 \<or> d = 10 \<or> d = 11 \<or> d = 12 \<or> d = 13 \<or> d = 14 \<or> d = 15"
  by uint_arith

lemma hex_value_hex_digit: "d < 16 \<Longrightarrow> hex_value (hex_digit d) = Some d"
  by (drule nibble_cases, elim disjE) (simp_all add: hex_value_def hex_digit_def)

lemma hex4_UnicodeEscape:
  "hex4 (hex_digit (drop_bit 12 c AND 0xF)) (hex_digit (drop_bit 8 c AND 0xF))
        (hex_digit (drop_bit 4 c AND 0xF)) (hex_digit (c AND 0xF)) = Some c"
  unfolding hex4_def
  by (simp only: hex_value_hex_digit [OF nibble_lt] prod.case option.case rebuild)

lemma lex_string_quote_unit:
  "lex_string (quote_unit c @ tail) = map_option (apfst ((#) c)) (lex_string tail)"
proof -
  consider (short) "c = 0x8 \<or> c = 0x9 \<or> c = 0xA \<or> c = 0xC \<or> c = 0xD \<or> c = 0x22 \<or> c = 0x5C"
    | (unicode) "\<not> (c = 0x8 \<or> c = 0x9 \<or> c = 0xA \<or> c = 0xC \<or> c = 0xD \<or> c = 0x22 \<or> c = 0x5C)"
        "c < 0x20 \<or> is_high_surrogate c \<or> is_low_surrogate c"
    | (plain) "\<not> (c = 0x8 \<or> c = 0x9 \<or> c = 0xA \<or> c = 0xC \<or> c = 0xD \<or> c = 0x22 \<or> c = 0x5C)"
        "\<not> (c < 0x20 \<or> is_high_surrogate c \<or> is_low_surrogate c)"
    by blast
  then show ?thesis
  proof cases
    case short
    then show ?thesis
      by (elim disjE) (simp_all add: quote_unit_def unescape_def)
  next
    case unicode
    then show ?thesis
      by (simp add: quote_unit_def UnicodeEscape_def hex4_UnicodeEscape)
  next
    case plain
    then show ?thesis
      by (simp add: quote_unit_def)
  qed
qed

lemma surrogate_literal:
  "is_high_surrogate c \<or> is_low_surrogate c \<Longrightarrow> c \<noteq> 0x22 \<and> c \<noteq> 0x5C \<and> \<not> c < 0x20"
  unfolding is_high_surrogate_def is_low_surrogate_def by uint_arith

lemma lex_string_quote_body:
  "lex_string (quote_body s @ 0x22 # rest) = Some (s, rest)"
proof (induction s rule: quote_body.induct)
  case 1
  show ?case by simp
next
  case (2 c)
  show ?case by (simp add: lex_string_quote_unit)
next
  case (3 c d cs)
  show ?case
  proof (cases "is_high_surrogate c \<and> is_low_surrogate d")
    case True
    then have q: "quote_body (c # d # cs) = c # d # quote_body cs" by simp
    have ih: "lex_string (quote_body cs @ 0x22 # rest) = Some (cs, rest)"
      using 3(1) True by simp
    from True surrogate_literal [of c] surrogate_literal [of d] ih show ?thesis
      unfolding q by simp
  next
    case False
    then have q: "quote_body (c # d # cs) = quote_unit c @ quote_body (d # cs)" by auto
    have ih: "lex_string (quote_body (d # cs) @ 0x22 # rest) = Some (d # cs, rest)"
      using 3(2) False by simp
    show ?thesis
      unfolding q by (simp only: append_assoc lex_string_quote_unit ih) simp
  qed
qed

subsection \<open>Tokens of an encoded record\<close>

lemma tokenize_QuoteJSONString:
  "tokenize (QuoteJSONString s @ rest) = map_option ((#) (TString s)) (tokenize rest)"
  by (simp add: QuoteJSONString_def is_json_ws_def lex_string_quote_body)

lemma tokenize_punctuation:
  "tokenize (0x3A # cs) = map_option ((#) Colon) (tokenize cs)"
  "tokenize (0x2C # cs) = map_option ((#) Comma) (tokenize cs)"
  "tokenize (0x7B # cs) = map_option ((#) LBrace) (tokenize cs)"
  "tokenize (0x7D # cs) = map_option ((#) RBrace) (tokenize cs)"
  by (simp_all add: is_json_ws_def)

lemma tokenize_stringify_members:
  "tokenize (stringify_members r @ rest) = map_option ((@) (member_tokens r)) (tokenize rest)"
proof (induction r arbitrary: rest rule: stringify_members.induct)
  case 1
  show ?case by (simp add: option.map_ident)
next
  case (2 k v)
  show ?case
    by (simp only: stringify_members.simps member_tokens.simps append_assoc append_Cons
          tokenize_QuoteJSONString tokenize_punctuation option.map_comp)
       (simp add: comp_def)
next
  case (3 k v m ms)
  show ?case
    by (simp only: stringify_members.simps member_tokens.simps append_assoc append_Cons
          tokenize_QuoteJSONString tokenize_punctuation option.map_comp 3)
       (simp add: comp_def)
qed

lemma tokenize_JSON_stringify:
  "tokenize (JSON_stringify r) = Some (LBrace # member_tokens r @ [RBrace])"
  unfolding JSON_stringify_def
  by (simp only: tokenize_punctuation tokenize_stringify_members append_Cons append_Nil
        tokenize.simps option.map)
     (simp add: is_json_ws_def)

subsection \<open>Parsing the tokens\<close>

lemma own_key_order_prefix: "own_key_order (xs @ ys) \<Longrightarrow> own_key_order xs"
  by (simp add: own_key_order_def sorted_wrt_append)

lemma own_key_order_snoc_index:
  "own_key_order (ks @ [k]) \<Longrightarrow> array_index k = Some i \<Longrightarrow> k' \<in> set ks \<Longrightarrow>
     \<exists>j. array_index k' = Some j \<and> j < i"
  by (auto simp: own_key_order_def sorted_wrt_append key_before_def split: option.splits)

lemma insert_index_append:
  "\<forall>q \<in> set obj. \<exists>j. array_index (fst q) = Some j \<and> j < i \<Longrightarrow>
     insert_index i p obj = obj @ [p]"
  by (induction obj) auto

lemma CreateDataProperty_append:
  assumes "k \<notin> fst ` set obj" and "own_key_order (map fst obj @ [k])"
  shows "CreateDataProperty obj k v = obj @ [(k, v)]"
proof (cases "array_index k")
  case None
  with assms(1) show ?thesis by (simp add: CreateDataProperty_def)
next
  case (Some i)
  have "\<forall>q \<in> set obj. \<exists>j. array_index (fst q) = Some j \<and> j < i"
    using own_key_order_snoc_index [OF assms(2) Some] by auto
  then have "insert_index i (k, v) obj = obj @ [(k, v)]"
    by (rule insert_index_append)
  with assms(1) Some show ?thesis by (simp add: CreateDataProperty_def)
qed

lemma define_all_simps:
  "define_all obj [] = obj"
  "define_all obj ((k, v) # r) = define_all (CreateDataProperty obj k (JString v)) r"
  by (simp_all add: define_all_def)

lemma define_all_ordinary:
  "distinct (map fst acc @ map fst r) \<Longrightarrow> own_key_order (map fst acc @ map fst r) \<Longrightarrow>
     define_all acc r = acc @ map (\<lambda>(k, v). (k, JString v)) r"
proof (induction r arbitrary: acc)
  case Nil
  show ?case by (simp add: define_all_simps)
next
  case (Cons kv r)
  obtain k v where kv: "kv = (k, v)" by (cases kv)
  have order: "own_key_order ((map fst acc @ [k]) @ map fst r)"
    using Cons.prems(2) by (simp add: kv)
  have "k \<notin> fst ` set acc" using Cons.prems(1) by (auto simp: kv)
  then have step: "CreateDataProperty acc k (JString v) = acc @ [(k, JString v)]"
    using own_key_order_prefix [OF order] by (rule CreateDataProperty_append)
  have "define_all (acc @ [(k, JString v)]) r
          = (acc @ [(k, JString v)]) @ map (\<lambda>(k, v). (k, JString v)) r"
    using Cons.prems by (intro Cons.IH) (simp_all add: kv)
  then show ?case by (simp add: kv define_all_simps step)
qed

lemma parse_members:
  "r \<noteq> [] \<Longrightarrow> e = Key \<or> e = KeyOrEnd \<Longrightarrow>
     parse_tokens ([ObjectFrame obj None], e) (member_tokens r @ [RBrace])
       = Some ([], Finished (JObject (define_all obj r)))"
proof (induction r arbitrary: obj e rule: member_tokens.induct)
  case 1
  then show ?case by simp
next
  case (2 k v)
  then show ?case by (auto simp: define_all_simps)
next
  case (3 k v m ms)
  have "parse_tokens ([ObjectFrame (CreateDataProperty obj k (JString v)) None], Key)
          (member_tokens (m # ms) @ [RBrace])
        = Some ([], Finished (JObject (define_all (CreateDataProperty obj k (JString v)) (m # ms))))"
    by (rule 3(1)) simp_all
  with 3(3) show ?case by (auto simp: define_all_simps)
qed

lemma parse_record_tokens:
  "parse_tokens ([], Value) (LBrace # member_tokens r @ [RBrace])
     = Some ([], Finished (JObject (define_all [] r)))"
proof (cases "r = []")
  case True
  then show ?thesis by (simp add: define_all_simps)
next
  case False
  then show ?thesis by (simp add: parse_members)
qed

lemma JSON_parse_stringify:
  "JSON_parse (JSON_stringify r) = Inr (JObject (define_all [] r))"
  unfolding JSON_parse_def
  by (simp only: tokenize_JSON_stringify parse_record_tokens option.case prod.case
        list.case expect.case)

lemma JSON_parse_stringify_ordinary:
  "ordinary_object r \<Longrightarrow> JSON_parse (JSON_stringify r) = Inr (json_of_record r)"
  using define_all_ordinary [of "[]" r]
  by (simp add: JSON_parse_stringify ordinary_object_def json_of_record_def)

section \<open>Objects built by assignment\<close>

subsection \<open>Array indices are canonical decimals\<close>

lemma decimal_value_snoc: "decimal_value (s @ [c]) = 10 * decimal_value s + (uint c - 0x30)"
  by (simp add: decimal_value_def)

lemma digit_uint: "is_digit c \<Longrightarrow> 0x30 \<le> uint c \<and> uint c \<le> 0x39"
  unfolding is_digit_def by uint_arith

lemma decimal_digit: "n < 10 \<Longrightarrow> decimal n = [of_int (0x30 + n)]"
  by (subst decimal.simps) simp

lemma decimal_step: "0 < n \<Longrightarrow> 0 \<le> d \<Longrightarrow> d < 10 \<Longrightarrow>
    decimal (10 * n + d) = decimal n @ [of_int (0x30 + d)]"
  by (subst decimal.simps) (simp add: div_pos_pos_trivial)

lemma decimal_of_digits:
  "s \<noteq> [] \<Longrightarrow> list_all is_digit s \<Longrightarrow> hd s \<noteq> 0x30 \<Longrightarrow>
     0 < decimal_value s \<and> decimal (decimal_value s) = s"
proof (induction s rule: rev_nonempty_induct)
  case (single c)
  then have d: "0x30 \<le> uint c" "uint c \<le> 0x39" using digit_uint [of c] by simp_all
  from single have "c \<noteq> 0x30" by simp
  then have "uint c \<noteq> 0x30" by uint_arith
  with d show ?case
    by (simp add: decimal_value_def decimal_digit)
next
  case (snoc c s)
  then have ih: "0 < decimal_value s" "decimal (decimal_value s) = s"
    by simp_all
  have d: "0x30 \<le> uint c" "uint c \<le> 0x39" using snoc(3) digit_uint [of c] by simp_all
  have "decimal (10 * decimal_value s + (uint c - 0x30))
          = decimal (decimal_value s) @ [of_int (0x30 + (uint c - 0x30))]"
    using ih(1) d by (intro decimal_step) simp_all
  with ih d show ?case
    by (simp add: decimal_value_snoc)
qed

lemma array_index_decimal: "array_index s = Some i \<Longrightarrow> decimal i = s"
proof -
  assume a: "array_index s = Some i"
  then have s: "s \<noteq> []" "list_all is_digit s" "hd s \<noteq> 0x30 \<or> length s = 1"
    and i: "i = decimal_value s"
    by (auto simp: array_index_def split: if_splits)
  show ?thesis
  proof (cases "hd s = 0x30")
    case True
    with s have "s = [0x30]" by (cases s) auto
    with i show ?thesis by (simp add: decimal_value_def decimal_digit)
  next
    case False
    with s i show ?thesis by (simp add: decimal_of_digits)
  qed
qed

lemma array_index_inj: "array_index s = Some i \<Longrightarrow> array_index t = Some i \<Longrightarrow> s = t"
  using array_index_decimal by metis

subsection \<open>Defining a property keeps an object ordinary\<close>

lemma keys_insert_index:
  "fst ` set (insert_index i p obj) = insert (fst p) (fst ` set obj)"
  by (induction obj) (auto split: option.splits)

lemma distinct_insert_index:
  "fst p \<notin> fst ` set obj \<Longrightarrow> distinct (map fst obj) \<Longrightarrow>
     distinct (map fst (insert_index i p obj))"
proof (induction obj)
  case Nil
  show ?case by simp
next
  case (Cons q obj)
  have "fst q \<notin> fst ` set (insert_index i p obj)"
    using Cons.prems by (auto simp: keys_insert_index)
  with Cons show ?case by (auto split: option.splits)
qed

lemma key_before_trans: "key_before a b \<Longrightarrow> key_before b c \<Longrightarrow> key_before a c"
  by (auto simp: key_before_def split: option.splits)

lemma own_key_order_insert_index:
  assumes "array_index k = Some i"
  shows "own_key_order (map fst obj) \<Longrightarrow> k \<notin> fst ` set obj \<Longrightarrow>
           own_key_order (map fst (insert_index i (k, v) obj))"
proof (induction obj)
  case Nil
  show ?case by (simp add: own_key_order_def)
next
  case (Cons q obj)
  have tail: "own_key_order (map fst obj)" and k: "k \<notin> fst ` set obj" "k \<noteq> fst q"
    and q: "\<forall>y \<in> set (map fst obj). key_before (fst q) y"
    using Cons.prems by (auto simp: own_key_order_def)
  show ?case
  proof (cases "\<exists>j. array_index (fst q) = Some j \<and> j < i")
    case True
    then obtain j where j: "array_index (fst q) = Some j" "j < i" by blast
    have "key_before (fst q) k" using j assms by (simp add: key_before_def)
    with q have "\<forall>y \<in> fst ` set (insert_index i (k, v) obj). key_before (fst q) y"
      by (simp add: keys_insert_index)
    with Cons.IH [OF tail k(1)] j show ?thesis
      by (simp add: own_key_order_def)
  next
    case False
    have first: "key_before k (fst q)"
    proof (cases "array_index (fst q)")
      case None
      then show ?thesis by (simp add: key_before_def)
    next
      case (Some j)
      with False have "\<not> j < i" by simp
      moreover have "j \<noteq> i" using array_index_inj [OF assms, of "fst q"] Some k(2) by auto
      ultimately show ?thesis using Some assms by (simp add: key_before_def)
    qed
    with q have "\<forall>y \<in> set (map fst obj). key_before k y"
      by (blast intro: key_before_trans)
    with first Cons.prems(1) False show ?thesis
      by (auto simp: own_key_order_def split: option.splits)
  qed
qed


lemma CreateDataProperty_ordinary:
  assumes "ordinary_object obj"
  shows "ordinary_object (CreateDataProperty obj k v)"
proof (cases "k \<in> fst ` set obj")
  case True
  then have "map fst (AList.update k v obj) = map fst obj"
    by (simp add: update_keys)
  with True assms show ?thesis
    by (simp add: CreateDataProperty_def ordinary_object_def)
next
  case False
  show ?thesis
  proof (cases "array_index k")
    case None
    have "\<forall>y \<in> set (map fst obj). key_before y k"
      using None by (simp add: key_before_def)
    with False None assms show ?thesis
      by (auto simp: CreateDataProperty_def ordinary_object_def own_key_order_def
            sorted_wrt_append)
  next
    case (Some i)
    with False assms show ?thesis
      by (simp add: CreateDataProperty_def ordinary_object_def distinct_insert_index
            own_key_order_insert_index)
  qed
qed


subsection \<open>The record a change collects\<close>




section \<open>Properties of the draft auto-save\<close>

subsection \<open>Restore\<close>

lemma restore_field_kept:
  "length (state_of (restore_field h els entry)) = length els \<and>
   (i < length els \<longrightarrow> el_value (els ! i) \<noteq> [] \<longrightarrow>
      state_of (restore_field h els entry) ! i = els ! i)"
  by (auto simp: restore_field_def nth_list_update split: selected.splits sum.splits)

lemma restore_fields_kept:
  "length (state_of (restore_fields h els entries)) = length els \<and>
   (i < length els \<longrightarrow> el_value (els ! i) \<noteq> [] \<longrightarrow>
      state_of (restore_fields h els entries) ! i = els ! i)"
proof (induction entries arbitrary: els)
  case Nil
  show ?case by simp
next
  case (Cons entry entries)
  show ?case
  proof (cases "restore_field h els entry")
    case (Thrown e els')
    with restore_field_kept [of h els entry i] show ?thesis by simp
  next
    case (Returned els')
    with restore_field_kept [of h els entry i] Cons.IH [of els'] show ?thesis by auto
  qed
qed

lemma load_saved_data_kept:
  "length (state_of (load_saved_data h saved els)) = length els \<and>
   (i < length els \<longrightarrow> el_value (els ! i) \<noteq> [] \<longrightarrow>
      state_of (load_saved_data h saved els) ! i = els ! i)"
  using restore_fields_kept [of h els _ i]
  by (auto simp: load_saved_data_def split: option.splits sum.splits)

lemma initAutoSave_form_elements:
  "length (elements (state_of (initAutoSave_form h st f))) = length (elements f) \<and>
   (i < length (elements f) \<longrightarrow> el_value (elements f ! i) \<noteq> [] \<longrightarrow>
      el_value (elements (state_of (initAutoSave_form h st f)) ! i) = el_value (elements f ! i))"
proof (cases "load_saved_data h (getItem st (storage_key (form_key f))) (elements f)")
  case (Returned els)
  with load_saved_data_kept [of h "getItem st (storage_key (form_key f))" "elements f" i]
  show ?thesis by (auto simp: initAutoSave_form_def)
next
  case (Thrown e els)
  with load_saved_data_kept [of h "getItem st (storage_key (form_key f))" "elements f" i]
  show ?thesis by (auto simp: initAutoSave_form_def)
qed

text \<open>
  Claim C4. Whatever the stored draft and whatever the host, an element of the form
  whose value is not empty is left exactly as it was by the restore step, and so has the
  same value after \<open>initAutoSave\<close> has processed the form, whether that returned or
  threw. The same holds of every single entry applied to any state of the elements: an
  entry changes an element only if that element's value is empty at that moment.
\<close>

theorem restore_keeps_nonempty_fields:
  assumes "i < length (elements f)" and "el_value (elements f ! i) \<noteq> []"
  shows "state_of (load_saved_data h saved (elements f)) ! i = elements f ! i \<and>
         state_of (restore_field h (elements f) entry) ! i = elements f ! i \<and>
         el_value (elements (state_of (initAutoSave_form h st f)) ! i) = el_value (elements f ! i)"
  using assms load_saved_data_kept [of h saved "elements f" i]
    restore_field_kept [of h "elements f" entry i] initAutoSave_form_elements [of h st f i]
  by simp

theorem restore_keeps_nonempty_fields_witness:
  \<open>state_of (load_saved_data example_host (Some (utf16 ''{"name":"Alice","bio":"hi"}''))
       [text_input ''name'' ''Bob'', text_input ''bio'' []]) ! 0
     = text_input ''name'' ''Bob''
   \<and> map el_value (state_of (load_saved_data example_host
         (Some (utf16 ''{"name":"Alice","bio":"hi"}''))
         [text_input ''name'' ''Bob'', text_input ''bio'' []]))
     = [utf16 ''Bob'', utf16 ''hi'']\<close>
proof -
  let ?f = "\<lparr>id_attr = None, elements = [text_input ''name'' ''Bob'', text_input ''bio'' []],
             submit_listeners = []\<rparr>"
  have i: "0 < length (elements ?f)" by simp
  have v: "el_value (elements ?f ! 0) \<noteq> []" by code_simp
  have applied: \<open>map el_value (state_of (load_saved_data example_host
         (Some (utf16 ''{"name":"Alice","bio":"hi"}''))
         [text_input ''name'' ''Bob'', text_input ''bio'' []]))
     = [utf16 ''Bob'', utf16 ''hi'']\<close>
    by code_simp
  from restore_keeps_nonempty_fields [OF i v] applied show ?thesis by simp
qed



lemma load_saved_data_absent:
  "load_saved_data h None els = Returned els" "load_saved_data h (Some []) els = Returned els"
  by (simp_all add: load_saved_data_def)






subsection \<open>Save on change\<close>

text \<open>
  The restore step changes values and backgrounds only: identities, tags and listeners
  are as they were.
\<close>

lemma map_list_update_same:
  "i < length els \<Longrightarrow> g x = g (els ! i) \<Longrightarrow> map g (els[i := x]) = map g els"
  by (metis list_update_id map_update nth_map)

lemma restore_field_frame:
  assumes "\<And>el s b. g (el\<lparr>el_value := s, background := b\<rparr>) = g el"
  shows "map g (state_of (restore_field h els entry)) = map g els"
  by (auto simp: restore_field_def map_list_update_same assms split: selected.splits sum.splits)

lemma restore_fields_frame:
  assumes "\<And>el s b. g (el\<lparr>el_value := s, background := b\<rparr>) = g el"
  shows "map g (state_of (restore_fields h els entries)) = map g els"
proof (induction entries arbitrary: els)
  case Nil
  show ?case by simp
next
  case (Cons entry entries)
  show ?case
  proof (cases "restore_field h els entry")
    case (Thrown e els')
    with restore_field_frame [of g h els entry, OF assms] show ?thesis by simp
  next
    case (Returned els')
    with restore_field_frame [of g h els entry, OF assms] Cons.IH [of els'] show ?thesis by simp
  qed
qed

lemma load_saved_data_frame:
  assumes "\<And>el s b. g (el\<lparr>el_value := s, background := b\<rparr>) = g el"
  shows "map g (state_of (load_saved_data h saved els)) = map g els"
  using restore_fields_frame [of g h els, OF assms]
  by (auto simp: load_saved_data_def split: option.splits sum.splits)

text \<open>
  On a form no auto-save listener was attached to before, \<open>initAutoSave\<close> leaves every
  input with one change listener: the closure over the form's id and over the inputs the
  form had then.
\<close>

lemma initAutoSave_form_listeners:
  assumes tracked: "initAutoSave_form h st f = Returned f'"
    and once: "\<forall>el \<in> set (elements f). change_listeners el = []"
    and field: "el \<in> set (form_inputs f')"
  shows "change_listeners el = [(form_key f, map node (form_inputs f))]"
proof -
  let ?attach = "\<lambda>el. if is_input el
      then el\<lparr>change_listeners := change_listeners el @ [(form_key f, map node (form_inputs f))]\<rparr>
      else el"
  from tracked obtain els
    where loaded: "load_saved_data h (getItem st (storage_key (form_key f))) (elements f)
                     = Returned els"
      and f': "elements f' = map ?attach els"
    by (auto simp: initAutoSave_form_def split: outcome.splits)
  have "map change_listeners els = map change_listeners (elements f)"
    using load_saved_data_frame [of change_listeners h "getItem st (storage_key (form_key f))"
        "elements f"] loaded by simp
  then have "change_listeners ` set els = change_listeners ` set (elements f)"
    by (metis set_map)
  with once have none: "\<forall>x \<in> set els. change_listeners x = []" by auto
  from field f' obtain x where x: "x \<in> set els" "el = ?attach x" "is_input el"
    by (auto simp: form_inputs_def)
  have "is_input x"
  proof (rule ccontr)
    assume "\<not> is_input x"
    with x show False by simp
  qed
  with x none show ?thesis by simp
qed

lemma save_on_change_fails:
  assumes "\<not> available st \<or>
           quota st < usage (AList.update (storage_key formId)
                               (JSON_stringify (collect_formData inputs)) (items st))"
  shows "save_on_change formId inputs st =
           Thrown QuotaExceededError (st\<lparr>setItem_calls := Suc (setItem_calls st)\<rparr>)"
  using assms by (auto simp: save_on_change_def setItem_def)

lemma fire_change_one_listener:
  assumes "change_listeners el = [(formId, ids)]"
  shows "fire_change p el =
           (case save_on_change formId (captured_inputs ids (page_elements p)) (localStorage p) of
              Returned st \<Rightarrow> (p\<lparr>localStorage := st\<rparr>, [])
            | Thrown e st \<Rightarrow> (p\<lparr>localStorage := st\<rparr>, [e]))"
  using assms by (simp add: fire_change_def split: outcome.splits)

text \<open>
  Claim C2, as the code has it. Let \<open>initAutoSave\<close> have processed a form, which
  carried no auto-save listener before, and let a change event reach one of its fields
  (an element \<open>el\<close> with the listeners of a field \<open>el'\<close> of the processed form) on a
  page whose store turns the write down, because it is not available or because the
  quota would be exceeded. Then the store has received exactly one call of \<open>setItem\<close>,
  so there was no second attempt; its items are as they were, and so are the forms of
  the page; but the failure is not silent: the \<open>QuotaExceededError\<close> has left the
  handler, and the dispatcher has it as an uncaught exception.
\<close>

theorem change_handler_write_fails:
  assumes tracked: "initAutoSave_form h st0 f = Returned f'"
    and once: "\<forall>el \<in> set (elements f). change_listeners el = []"
    and field: "el' \<in> set (form_inputs f')"
    and target: "change_listeners el = change_listeners el'"
    and fails: "\<not> available (localStorage p) \<or>
                quota (localStorage p) <
                  usage (AList.update (storage_key (form_key f))
                    (JSON_stringify (collect_formData
                       (captured_inputs (map node (form_inputs f)) (page_elements p))))
                    (items (localStorage p)))"
  shows "fire_change p el =
           (p\<lparr>localStorage :=
                 (localStorage p)\<lparr>setItem_calls := Suc (setItem_calls (localStorage p))\<rparr>\<rparr>,
            [QuotaExceededError])"
proof -
  from initAutoSave_form_listeners [OF tracked once field] target
  have "change_listeners el = [(form_key f, map node (form_inputs f))]" by simp
  from fire_change_one_listener [OF this, of p] save_on_change_fails [OF fails]
  show ?thesis by simp
qed

theorem change_handler_write_fails_witness:
  "fire_change (edited_page private_store) edited_name_field
     = (edited_page (private_store\<lparr>setItem_calls := 1\<rparr>), [QuotaExceededError])
   \<and> items (localStorage (fst
        (fire_change (edited_page private_store) edited_name_field))) = []
   \<and> forms (fst (fire_change (edited_page private_store) edited_name_field))
     = forms (edited_page private_store)"
proof -
  have tracked: "initAutoSave_form example_host (store_of []) profile_form
                   = Returned tracked_profile_form"
    by code_simp
  have once: "\<forall>el \<in> set (elements profile_form). change_listeners el = []"
    by code_simp
  have field: "elements tracked_profile_form ! 0 \<in> set (form_inputs tracked_profile_form)"
    by code_simp
  have target: "change_listeners edited_name_field
                  = change_listeners (elements tracked_profile_form ! 0)"
    by code_simp
  have fails: "\<not> available (localStorage (edited_page private_store))"
    by code_simp
  have after: "(edited_page private_store)\<lparr>localStorage :=
        (localStorage (edited_page private_store))
          \<lparr>setItem_calls := Suc (setItem_calls (localStorage (edited_page private_store)))\<rparr>\<rparr>
      = edited_page (private_store\<lparr>setItem_calls := 1\<rparr>)"
    by (simp add: edited_page_def private_store_def)
  have kept: "items (localStorage (edited_page (private_store\<lparr>setItem_calls := 1\<rparr>))) = []"
    "forms (edited_page (private_store\<lparr>setItem_calls := 1\<rparr>)) = forms (edited_page private_store)"
    by (simp_all add: edited_page_def private_store_def)
  from change_handler_write_fails [OF tracked once field target disjI1 [OF fails]]
  show ?thesis unfolding after using kept by simp
qed

text \<open>
  Claim C2 as stated fails: the user types Alice into the \<open>name\<close> field of the tracked
  \<open>profile-form\<close>; the record does not fit into the store, and the change event ends
  with an uncaught \<open>QuotaExceededError\<close>.
\<close>

theorem change_handler_throws:
  "fire_change (edited_page small_store) edited_name_field
     = (edited_page (small_store\<lparr>setItem_calls := 1\<rparr>), [QuotaExceededError])"
  by code_simp

lemma decode_record_stringify:
  assumes "ordinary_object r"
  shows "decode_record (JSON_stringify r) = Some r"
proof -
  have vals: "list_all (\<lambda>m. case snd m of JString s \<Rightarrow> True | _ \<Rightarrow> False)
               (map (\<lambda>(k, v). (k, JString v)) r)"
    by (induction r) auto
  have strs: "map (\<lambda>m. (fst m, case snd m of JString s \<Rightarrow> s | _ \<Rightarrow> []))
                (map (\<lambda>(k, v). (k, JString v)) r) = r"
    by (induction r) auto
  show ?thesis
    unfolding decode_record_def
    by (simp only: JSON_parse_stringify_ordinary [OF assms] json_of_record_def sum.case
          json.case vals strs if_True)
qed





text \<open>
  As long as no input was added to the form or removed from it since \<open>initAutoSave\<close>
  processed it, the inputs the listener reads are the inputs of the form: for a form
  \<open>g\<close> with the elements of \<open>f\<close>, whatever their values have become.
\<close>

lemma map_filter_same:
  "map a xs = map a ys \<Longrightarrow> map t xs = map t ys \<Longrightarrow>
     map a (filter (\<lambda>x. Q (t x)) xs) = map a (filter (\<lambda>x. Q (t x)) ys)"
proof (induction xs arbitrary: ys)
  case Nil
  then show ?case by simp
next
  case (Cons x xs)
  then obtain y ys' where "ys = y # ys'" by (cases ys) auto
  with Cons show ?case by auto
qed

lemma find_node:
  "distinct (map node pool) \<Longrightarrow> el \<in> set pool \<Longrightarrow>
     List.find (\<lambda>x. node x = node el) pool = Some el"
  by (induction pool) (auto simp: image_iff)

lemma captured_inputs_same:
  assumes "distinct (map node pool)" and "set xs \<subseteq> set pool"
  shows "captured_inputs (map node xs) pool = xs"
  using assms(2)
proof (induction xs)
  case Nil
  show ?case by (simp add: captured_inputs_def List.map_filter_simps)
next
  case (Cons x xs)
  then have "captured_inputs (map node xs) pool = xs" by simp
  with find_node [OF assms(1), of x] Cons.prems show ?case
    by (simp add: captured_inputs_def List.map_filter_simps)
qed

lemma captured_inputs_unchanged:
  assumes "distinct (map node (elements g))"
    and "map node (elements g) = map node (elements f)"
    and "map tag (elements g) = map tag (elements f)"
  shows "captured_inputs (map node (form_inputs f)) (elements g) = form_inputs g"
proof -
  have "map node (form_inputs f) = map node (form_inputs g)"
    unfolding form_inputs_def is_input_def
    using map_filter_same [of node "elements f" "elements g" tag
        "\<lambda>t. t = Input \<or> t = Textarea \<or> t = Select"] assms(2,3)
    by simp
  then show ?thesis
    using captured_inputs_same [OF assms(1), of "form_inputs g"]
    by (simp add: form_inputs_def)
qed




subsection \<open>Clear on submit\<close>

lemma getItem_after_submit:
  "getItem (foldl (\<lambda>st formId. clear_on_submit formId st) st listeners) k =
     (if k \<in> storage_key ` set listeners then None else getItem st k)"
  by (induction listeners arbitrary: st)
     (auto simp: clear_on_submit_def removeItem_def getItem_def delete_conv')

text \<open>
  Claim C6. Let \<open>initAutoSave\<close> have processed a form, so that the form carries its
  submit listener. After a submit event on it, whatever the store held, there is no item
  under the form's key, and the restore step of a later page load for any form with the
  same key returns with every element as it was.
\<close>

theorem submit_clears_draft:
  assumes "initAutoSave_form h st0 f = Returned f'"
  shows "getItem (submit_event f' st) (storage_key (form_key f)) = None \<and>
         (\<forall>g. form_key g = form_key f \<longrightarrow>
            load_saved_data h (getItem (submit_event f' st) (storage_key (form_key g))) (elements g)
              = Returned (elements g))"
proof -
  from assms have "form_key f \<in> set (submit_listeners f')"
    by (auto simp: initAutoSave_form_def split: outcome.splits)
  then have "getItem (submit_event f' st) (storage_key (form_key f)) = None"
    by (simp add: submit_event_def getItem_after_submit)
  then show ?thesis by (simp add: load_saved_data_absent)
qed

theorem submit_clears_draft_witness:
  "getItem (submit_event
      \<lparr>id_attr = Some (utf16 ''profile-form''),
       elements = map (\<lambda>el. el\<lparr>change_listeners := [(utf16 ''profile-form'', [0, 1])]\<rparr>)
                    (elements profile_form),
       submit_listeners = [utf16 ''profile-form'']\<rparr>
      (localStorage draft_page)) (storage_key (form_key profile_form)) = None
   \<and> load_saved_data example_host
        (getItem (submit_event
          \<lparr>id_attr = Some (utf16 ''profile-form''),
           elements = map (\<lambda>el. el\<lparr>change_listeners := [(utf16 ''profile-form'', [0, 1])]\<rparr>)
                        (elements profile_form),
           submit_listeners = [utf16 ''profile-form'']\<rparr>
          (localStorage draft_page)) (storage_key (form_key profile_form)))
        (elements profile_form)
     = Returned (elements profile_form)"
proof -
  have run: "initAutoSave_form example_host (store_of []) profile_form
      = Returned \<lparr>id_attr = Some (utf16 ''profile-form''),
           elements = map (\<lambda>el. el\<lparr>change_listeners := [(utf16 ''profile-form'', [0, 1])]\<rparr>)
                        (elements profile_form),
           submit_listeners = [utf16 ''profile-form'']\<rparr>"
    by code_simp
  from submit_clears_draft [OF run, of "localStorage draft_page"] show ?thesis by blast
qed

subsection \<open>Round trip\<close>

text \<open>
  \<open>JSON_parse\<close> defines the members of an object one by one, so every object it returns
  is an ordinary object, and every string that decodes, decodes to a record.
\<close>

lemma ordinary_state_frames: "ordinary_state (st, e) \<Longrightarrow> list_all ordinary_frame st"
  by (cases e) simp_all

lemma push_value_ordinary:
  "push_value v st = Some s' \<Longrightarrow> list_all ordinary_frame st \<Longrightarrow> ordinary_value v \<Longrightarrow>
     ordinary_state s'"
  by (cases "(v, st)" rule: push_value.cases) (auto simp: CreateDataProperty_ordinary)

lemma start_value_ordinary:
  "list_all ordinary_frame st \<Longrightarrow> start_value st t = Some s' \<Longrightarrow> ordinary_state s'"
  by (cases t)
     (auto simp: ordinary_object_def own_key_order_def dest: push_value_ordinary)

lemma close_array_ordinary:
  "list_all ordinary_frame st \<Longrightarrow> close_array st = Some s' \<Longrightarrow> ordinary_state s'"
  by (cases st rule: close_array.cases) (auto dest: push_value_ordinary)

lemma close_object_ordinary:
  "list_all ordinary_frame st \<Longrightarrow> close_object st = Some s' \<Longrightarrow> ordinary_state s'"
  by (cases st rule: close_object.cases) (auto dest: push_value_ordinary)

lemma set_key_ordinary:
  "list_all ordinary_frame st \<Longrightarrow> set_key k st = Some s' \<Longrightarrow> ordinary_state s'"
  by (cases "(k, st)" rule: set_key.cases) auto

lemma after_comma_ordinary:
  "list_all ordinary_frame st \<Longrightarrow> after_comma st = Some s' \<Longrightarrow> ordinary_state s'"
  by (cases st rule: after_comma.cases) auto

lemma parse_step_ordinary:
  assumes "ordinary_state s" and "parse_step s t = Some s'"
  shows "ordinary_state s'"
proof -
  obtain st e where s: "s = (st, e)" by (cases s)
  with assms(1) have frames: "list_all ordinary_frame st" by (simp add: ordinary_state_frames)
  note rules = start_value_ordinary [OF frames] close_array_ordinary [OF frames]
    close_object_ordinary [OF frames] set_key_ordinary [OF frames]
    after_comma_ordinary [OF frames]
  show ?thesis
  proof (cases e)
    case Value
    with assms(2) s show ?thesis by (auto dest: rules)
  next
    case ValueOrEnd
    with assms(2) s show ?thesis by (auto split: if_splits dest: rules)
  next
    case Key
    with assms(2) s show ?thesis by (auto split: token.splits dest: rules)
  next
    case KeyOrEnd
    with assms(2) s show ?thesis by (auto split: token.splits dest: rules)
  next
    case ColonNext
    with assms(2) s frames show ?thesis by (auto split: if_splits)
  next
    case CommaOrEnd
    with assms(2) s show ?thesis by (auto split: token.splits dest: rules)
  next
    case (Finished v)
    with assms(2) s show ?thesis by simp
  qed
qed

lemma parse_tokens_ordinary:
  "ordinary_state s \<Longrightarrow> parse_tokens s ts = Some s' \<Longrightarrow> ordinary_state s'"
proof (induction ts arbitrary: s)
  case Nil
  then show ?case by simp
next
  case (Cons t ts)
  then show ?case by (auto split: option.splits dest: parse_step_ordinary)
qed

lemma JSON_parse_ordinary:
  assumes "JSON_parse x = Inr (JObject ms)"
  shows "ordinary_object ms"
proof -
  from assms obtain ts where "parse_tokens ([], Value) ts = Some ([], Finished (JObject ms))"
    by (auto simp: JSON_parse_def split: option.splits prod.splits list.splits expect.splits)
  from parse_tokens_ordinary [OF _ this] show ?thesis by simp
qed

lemma decode_record_ordinary:
  assumes "decode_record x = Some r"
  shows "ordinary_object r"
proof -
  from assms obtain ms where parsed: "JSON_parse x = Inr (JObject ms)"
    and r: "r = map (\<lambda>m. (fst m, case snd m of JString s \<Rightarrow> s | _ \<Rightarrow> [])) ms"
    by (auto simp: decode_record_def split: sum.splits json.splits if_splits)
  from r have "map fst r = map fst ms" by simp
  with JSON_parse_ordinary [OF parsed] show ?thesis by (simp add: ordinary_object_def)
qed

text \<open>
  Claim C7, as the code has it. A record \<open>r\<close> is an ordinary object with string
  values; every record the change handler stores is one (\<open>collect_formData_ordinary\<close>).
  Parsing the encoding of \<open>r\<close> gives back exactly the name-value pairs of \<open>r\<close>, in
  order, so for a string \<open>x\<close> the encoder wrote, encoding the decoded \<open>x\<close> gives \<open>x\<close>
  again. For any well-formed encoded record \<open>x\<close>, what it decodes to is a record, and
  the encoding of that record decodes to the same record.
\<close>

theorem record_round_trip:
  "(ordinary_object r \<longrightarrow>
      JSON_parse (JSON_stringify r) = Inr (json_of_record r) \<and>
      decode_record (JSON_stringify r) = Some r \<and>
      map_option JSON_stringify (decode_record (JSON_stringify r)) = Some (JSON_stringify r)) \<and>
   (decode_record x = Some r' \<longrightarrow>
      ordinary_object r' \<and> decode_record (JSON_stringify r') = Some r')"
  using JSON_parse_stringify_ordinary [of r] decode_record_stringify [of r]
    decode_record_ordinary [of x r'] decode_record_stringify [of r']
  by simp

theorem record_round_trip_witness:
  \<open>decode_record (utf16 ''{"name":"Alice","bio":""}'')
     = Some [(utf16 ''name'', utf16 ''Alice''), (utf16 ''bio'', [])]
   \<and> map_option JSON_stringify (decode_record (utf16 ''{"name":"Alice","bio":""}''))
     = Some (utf16 ''{"name":"Alice","bio":""}'')
   \<and> decode_record (utf16 ''{ "a" : "b" }'') = Some [(utf16 ''a'', utf16 ''b'')]
   \<and> decode_record (JSON_stringify [(utf16 ''a'', utf16 ''b'')]) = Some [(utf16 ''a'', utf16 ''b'')]\<close>
proof -
  have o: "ordinary_object [(utf16 ''name'', utf16 ''Alice''), (utf16 ''bio'', [])]"
    by code_simp
  have s: \<open>JSON_stringify [(utf16 ''name'', utf16 ''Alice''), (utf16 ''bio'', [])]
             = utf16 ''{"name":"Alice","bio":""}''\<close>
    by code_simp
  have d: \<open>decode_record (utf16 ''{ "a" : "b" }'') = Some [(utf16 ''a'', utf16 ''b'')]\<close>
    by code_simp
  from record_round_trip [of "[(utf16 ''name'', utf16 ''Alice''), (utf16 ''bio'', [])]"
      \<open>utf16 ''{ "a" : "b" }''\<close> "[(utf16 ''a'', utf16 ''b'')]"] o d
  show ?thesis by (simp add: s)
qed

text \<open>
  Claim C7 as stated fails. The text \<open>{ "a" : "b" }\<close>, with white space, is a
  well-formed encoded record: it decodes to the record with the one pair of \<open>a\<close> and
  \<open>b\<close>. Encoding that record gives the text without the white space, not the text
  that was decoded.
\<close>

theorem reencoding_differs:
  \<open>decode_record (utf16 ''{ "a" : "b" }'') = Some [(utf16 ''a'', utf16 ''b'')] \<and>
   map_option JSON_stringify (decode_record (utf16 ''{ "a" : "b" }''))
     = Some (utf16 ''{"a":"b"}'') \<and>
   utf16 ''{"a":"b"}'' \<noteq> utf16 ''{ "a" : "b" }''\<close>
  by code_simp

subsection \<open>Page load\<close>

lemma admin_DOMContentLoaded_frame: "admin_DOMContentLoaded p = p"
  by (simp add: admin_DOMContentLoaded_def initTooltips_def initAnimations_def
        initSearchEnhancements_def initFormEnhancements_def initTableEnhancements_def
        initDashboardStats_def)

text \<open>
  Claim C3. The \<open>DOMContentLoaded\<close> handler never calls \<open>initAutoSave\<close>. On a page
  with the form \<open>profile-form\<close> and a stored draft for it, the handler leaves the page as
  it was: both fields still empty, no listener attached. Had \<open>initAutoSave\<close> run, the
  name would have been restored and the listeners attached.
\<close>

theorem page_load_skips_initAutoSave:
  "admin_DOMContentLoaded draft_page = draft_page \<and>
   map el_value (elements (hd (forms (admin_DOMContentLoaded draft_page)))) = [[], []] \<and>
   submit_listeners (hd (forms (admin_DOMContentLoaded draft_page))) = [] \<and>
   map el_value (elements (hd (forms (state_of (initAutoSave example_host draft_page)))))
     = [utf16 ''Alice'', []] \<and>
   submit_listeners (hd (forms (state_of (initAutoSave example_host draft_page))))
     = [utf16 ''profile-form'']"
  by code_simp

subsection \<open>The scenario of the specification\<close>

text \<open>
  What \<open>initAutoSave\<close> does when it is run: it attaches the listeners to
  \<open>profile-form\<close>; the user types Alice into \<open>name\<close> and the change event stores the
  record; on a reload the empty \<open>name\<close> is restored; a submit event deletes the record.
  A field added to the form after \<open>initAutoSave\<close> has run is not among the inputs the
  listener reads, and is not stored; a field removed from the form after that still is.
\<close>

lemma profile_form_scenario:
  \<open>tracked_profile_form
     = profile_form
         \<lparr>elements := map (\<lambda>el. el\<lparr>change_listeners := [(utf16 ''profile-form'', [0, 1])]\<rparr>)
                          (elements profile_form),
          submit_listeners := [utf16 ''profile-form'']\<rparr>\<close>
  \<open>fire_change (edited_page (store_of [])) edited_name_field
     = (edited_page
         \<lparr>items = [(utf16 ''autosave-profile-form'', utf16 ''{"name":"Alice","bio":""}'')],
          quota = 100, available = True, setItem_calls = 1\<rparr>, [])\<close>
  \<open>map el_value (elements (state_of (initAutoSave_form example_host
       (store_of [(utf16 ''autosave-profile-form'', utf16 ''{"name":"Alice","bio":""}'')])
       profile_form)))
     = [utf16 ''Alice'', []]\<close>
  \<open>items (submit_event tracked_profile_form
       (store_of [(utf16 ''autosave-profile-form'', utf16 ''{"name":"Alice","bio":""}'')]))
     = []\<close>
  by code_simp+

lemma field_added_later:
  \<open>localStorage (fst (fire_change
      \<lparr>forms = [(typed 0 ''Alice'' tracked_profile_form)
                  \<lparr>elements := elements (typed 0 ''Alice'' tracked_profile_form) @
                     [(text_input ''email'' ''a@b.c'')\<lparr>node := 2\<rparr>]\<rparr>],
       detached = [], localStorage = store_of []\<rparr>
      edited_name_field))
     = \<lparr>items = [(utf16 ''autosave-profile-form'', utf16 ''{"name":"Alice","bio":""}'')],
        quota = 100, available = True, setItem_calls = 1\<rparr>\<close>
  by code_simp

lemma field_removed_later:
  \<open>localStorage (fst (fire_change
      \<lparr>forms = [(typed 0 ''Alice'' tracked_profile_form)
                  \<lparr>elements := take 1 (elements (typed 0 ''Alice'' tracked_profile_form))\<rparr>],
       detached = drop 1 (elements (typed 1 ''hi'' tracked_profile_form)),
       localStorage = store_of []\<rparr>
      edited_name_field))
     = \<lparr>items = [(utf16 ''autosave-profile-form'', utf16 ''{"name":"Alice","bio":"hi"}'')],
        quota = 100, available = True, setItem_calls = 1\<rparr>\<close>
  by code_simp

end
